theory Spec2Isabelle
  imports Main "HOL-Library.Word"
begin

section \<open>Data model of dockerd.go\<close>

text \<open>
  A Go \<^verbatim>\<open>error\<close> value. \<open>errors_New\<close> is an error the program builds itself with
  \<^verbatim>\<open>errors.New(msg)\<close>; \<open>OSError\<close> is an error handed back by the operating-system
  boundary (\<^verbatim>\<open>os/exec\<close>, \<^verbatim>\<open>io\<close>, \<^verbatim>\<open>pty\<close>).
\<close>

datatype error = errors_New string | OSError string

text \<open>\<^verbatim>\<open>time.Time\<close>, as an instant counted in nanoseconds.\<close>

type_synonym Time = nat

text \<open>
  \<^verbatim>\<open>type Layer struct\<close> and \<^verbatim>\<open>type Container struct\<close>. Go's \<^verbatim>\<open>uint\<close> is taken
  at 64 bits. Both structs have a field \<^verbatim>\<open>Id\<close>: they are \<open>Layer.Id\<close> and
  \<open>Container.Id\<close> below.
\<close>

record Layer =
  Id :: string
  Name :: string
  Added :: Time
  Size :: "64 word"
  Source :: string

record Container =
  Id :: string
  Cmd :: string
  Args :: "string list"
  Layers :: "Layer list"
  Created :: Time
  FilesChanged :: "64 word"
  BytesChanged :: "64 word"
  Running :: bool

text \<open>
  \<^verbatim>\<open>type Docker struct\<close>: two Go maps keyed by id. The maps hold struct values, not
  pointers, so storing into a map copies the struct.
\<close>

record Docker =
  layers :: "string \<rightharpoonup> Layer"
  containers :: "string \<rightharpoonup> Container"

definition New :: Docker where
  "New = \<lparr>layers = Map.empty, containers = Map.empty\<rparr>"

section \<open>The process boundary\<close>

text \<open>
  What the operating system does during one call of \<^verbatim>\<open>Container.Run\<close>: the error (or
  none) of each call that can fail, and the bytes the child writes to its standard
  output before \<^verbatim>\<open>io.Copy\<close> stops. The record describes an execution in which each
  blocking call (\<^verbatim>\<open>cmd.Wait\<close>, the channel receives) returns.
\<close>

record OS =
  pty_err :: "error option"
  stdin_pipe_err :: "error option"
  stdout_pipe_err :: "error option"
  start_err :: "error option"
  wait_err :: "error option"
  child_output :: string
  copy_err :: "error option"

datatype Stream = Term | StdinPipe | StdoutPipe

datatype Chan = copy_in | copy_out

text \<open>
  What one call of \<^verbatim>\<open>Run\<close> does to the outside world: the commands it started, the
  bytes written to the child's standard input, which input streams were closed, the bytes
  written to the caller's output, and the channels \<^verbatim>\<open>Run\<close> received from, in order.
  The effects of the two goroutines are those of their functions run to the end.
\<close>

record Effects =
  spawned :: "(string \<times> string list) list"
  child_stdin :: string
  cmd_stdin_closed :: bool
  stdin_closed :: bool
  stdout_written :: string
  received :: "Chan list"

definition no_effects :: Effects where
  "no_effects = \<lparr>spawned = [], child_stdin = [], cmd_stdin_closed = False,
     stdin_closed = False, stdout_written = [], received = []\<rparr>"

text \<open>
  \<^verbatim>\<open>func startCommand(cmd *exec.Cmd, interactive bool)\<close>: either a pseudo-terminal, or
  the two pipes and then \<^verbatim>\<open>cmd.Start()\<close>; the first error ends it. The result is
  the error, or the child's input sink and output source.
\<close>

definition startCommand :: "OS \<Rightarrow> bool \<Rightarrow> error + (Stream \<times> Stream)" where
  "startCommand os interactive =
     (if interactive then
        (case pty_err os of Some err \<Rightarrow> Inl err | None \<Rightarrow> Inr (Term, Term))
      else
        (case stdin_pipe_err os of Some err \<Rightarrow> Inl err | None \<Rightarrow>
         (case stdout_pipe_err os of Some err \<Rightarrow> Inl err | None \<Rightarrow>
          (case start_err os of Some err \<Rightarrow> Inl err | None \<Rightarrow>
             Inr (StdinPipe, StdoutPipe)))))"

text \<open>
  The function \<^verbatim>\<open>Run\<close> hands to \<^verbatim>\<open>Go\<close> first, \<^verbatim>\<open>io.Copy(stdout, cmd_stdout)\<close>:
  the child's output goes to the caller's output, and the value sent on the channel
  \<^verbatim>\<open>copy_out\<close> is the error of the copy.
\<close>

definition copy_out_func :: "OS \<Rightarrow> Effects \<Rightarrow> Effects \<times> error option" where
  "copy_out_func os eff =
     (eff\<lparr>stdout_written := stdout_written eff @ child_output os\<rparr>, copy_err os)"

text \<open>
  The function handed to \<^verbatim>\<open>Go\<close> second. The copy from the caller's input (\<open>stdin\<close>,
  the bytes the caller sent) is commented out in the source: the function closes
  \<^verbatim>\<open>cmd_stdin\<close>, closes \<^verbatim>\<open>stdin\<close> and returns \<^verbatim>\<open>nil\<close>, which is sent on the
  channel \<^verbatim>\<open>copy_in\<close>.
\<close>

definition copy_in_func :: "string \<Rightarrow> Effects \<Rightarrow> Effects \<times> error option" where
  "copy_in_func stdin eff =
     (eff\<lparr>cmd_stdin_closed := True, stdin_closed := True\<rparr>, None)"

text \<open>
  \<^verbatim>\<open>Container.Run\<close> from \<^verbatim>\<open>exec.Command\<close> on (lines 366 to 391): start the command,
  launch the two goroutines, wait for the child, then receive from \<^verbatim>\<open>copy_in\<close> and from
  \<^verbatim>\<open>copy_out\<close>. Each \<^verbatim>\<open>return err\<close> of the source is a branch.
\<close>

definition Run_body :: "Container \<Rightarrow> OS \<Rightarrow> string \<Rightarrow> Effects \<times> error option" where
  "Run_body c os stdin =
     (case startCommand os False of
        Inl err \<Rightarrow> (no_effects, Some err)
      | Inr (cmd_stdin, cmd_stdout) \<Rightarrow>
          (let eff = no_effects\<lparr>spawned := [(Cmd c, Args c)]\<rparr>;
               (eff, out_result) = copy_out_func os eff;
               (eff, in_result) = copy_in_func stdin eff
           in case wait_err os of
                Some err \<Rightarrow> (eff, Some err)
              | None \<Rightarrow>
                  (let eff = eff\<lparr>received := received eff @ [copy_in]\<rparr>
                   in case in_result of
                        Some err \<Rightarrow> (eff, Some err)
                      | None \<Rightarrow>
                          (let eff = eff\<lparr>received := received eff @ [copy_out]\<rparr>
                           in case out_result of
                                Some err \<Rightarrow> (eff, Some err)
                              | None \<Rightarrow> (eff, None)))))"

text \<open>
  A function registered with \<^verbatim>\<open>defer\<close>. \<^verbatim>\<open>Run\<close> registers one, the closure
  \<^verbatim>\<open>func() { c.Running = false }\<close> of line 365. Go runs the registered functions when
  the function returns, the last registered first, whichever \<^verbatim>\<open>return\<close> was taken.
\<close>

datatype Deferred = clear_Running

definition run_deferred :: "Deferred \<Rightarrow> Container \<Rightarrow> Container" where
  "run_deferred f c = (case f of clear_Running \<Rightarrow> c\<lparr>Running := False\<rparr>)"

text \<open>
  \<^verbatim>\<open>func (c *Container) Run(stdin, stdout) error\<close>, up to its \<^verbatim>\<open>return\<close>
  statement: the receiver as the statements of the function left it, the deferred
  functions registered by then (the last registered first), the effects and the value
  returned. The guard returns before the flag is set and before anything is deferred.
  Past the guard the flag is set and its release is deferred; none of the statements
  after that writes to the receiver.
\<close>

definition Run_frame ::
  "Container \<Rightarrow> OS \<Rightarrow> string \<Rightarrow> Container \<times> Deferred list \<times> Effects \<times> error option" where
  "Run_frame c os stdin =
     (if Running c then (c, [], no_effects, Some (errors_New ''Already running''))
      else
        (let c = c\<lparr>Running := True\<rparr>;
             deferred = [clear_Running];
             (eff, result) = Run_body c os stdin
         in (c, deferred, eff, result)))"

text \<open>
  The whole call: the statements of the function, then the deferred functions. The
  receiver is a pointer, so the container after the call is part of the result.
\<close>

definition Run :: "Container \<Rightarrow> OS \<Rightarrow> string \<Rightarrow> Container \<times> Effects \<times> error option" where
  "Run c os stdin =
     (let (c, deferred, eff, result) = Run_frame c os stdin
      in (fold run_deferred deferred c, eff, result))"

section \<open>Unicode and case\<close>

text \<open>
  Go strings are byte strings, read as UTF-8. \<^verbatim>\<open>utf8.DecodeRuneInString\<close> gives the
  first code point of a string and the number of bytes it takes; a byte that does not
  start a well-formed encoding is \<^verbatim>\<open>utf8.RuneError\<close> of width 1.
\<close>

definition RuneError :: nat where
  "RuneError = 0xFFFD"

definition DecodeRuneInString :: "string \<Rightarrow> nat \<times> nat" where
  "DecodeRuneInString s =
     (case s of
        [] \<Rightarrow> (RuneError, 0)
      | c0 # cs \<Rightarrow>
          (let s0 = (of_char c0 :: nat)
           in if s0 < 0x80 then (s0, 1)
              else if s0 < 0xC2 \<or> 0xF4 < s0 then (RuneError, 1)
              else
                (let sz = (if s0 < 0xE0 then 2 else if s0 < 0xF0 then 3 else 4 :: nat);
                     lo = (if s0 = 0xE0 then 0xA0 else if s0 = 0xF0 then 0x90 else 0x80 :: nat);
                     hi = (if s0 = 0xED then 0x9F else if s0 = 0xF4 then 0x8F else 0xBF :: nat)
                 in if length s < sz then (RuneError, 1)
                    else
                      (let s1 = (of_char (s ! 1) :: nat)
                       in if s1 < lo \<or> hi < s1 then (RuneError, 1)
                          else if sz \<le> 2 then ((s0 mod 32) * 64 + s1 mod 64, 2)
                          else
                            (let s2 = (of_char (s ! 2) :: nat)
                             in if s2 < 0x80 \<or> 0xBF < s2 then (RuneError, 1)
                                else if sz \<le> 3 then
                                  ((s0 mod 16) * 4096 + (s1 mod 64) * 64 + s2 mod 64, 3)
                                else
                                  (let s3 = (of_char (s ! 3) :: nat)
                                   in if s3 < 0x80 \<or> 0xBF < s3 then (RuneError, 1)
                                      else
                                        ((s0 mod 8) * 262144 + (s1 mod 64) * 4096
                                           + (s2 mod 64) * 64 + s3 mod 64, 4)))))))"

text \<open>
  \<^verbatim>\<open>utf8.EncodeRune\<close>: the UTF-8 bytes of a code point; a surrogate or a value past
  \<open>0x10FFFF\<close> is written as \<^verbatim>\<open>utf8.RuneError\<close>.
\<close>

definition EncodeRune :: "nat \<Rightarrow> string" where
  "EncodeRune r =
     (if r \<le> 0x7F then [char_of r]
      else if r \<le> 0x7FF then [char_of (0xC0 + r div 64), char_of (0x80 + r mod 64)]
      else
        (let r = (if 0x10FFFF < r \<or> (0xD800 \<le> r \<and> r \<le> 0xDFFF) then RuneError else r)
         in if r \<le> 0xFFFF then
              [char_of (0xE0 + r div 4096), char_of (0x80 + (r div 64) mod 64),
               char_of (0x80 + r mod 64)]
            else
              [char_of (0xF0 + r div 262144), char_of (0x80 + (r div 4096) mod 64),
               char_of (0x80 + (r div 64) mod 64), char_of (0x80 + r mod 64)]))"

text \<open>
  \<^verbatim>\<open>strings.Map\<close> with a mapping that drops nothing: the string is read code point by
  code point, and each is written back mapped. A byte that is not part of a
  well-formed encoding comes back as the three bytes of \<^verbatim>\<open>utf8.RuneError\<close>.
\<close>

function Map :: "(nat \<Rightarrow> nat) \<Rightarrow> string \<Rightarrow> string" where
  "Map mapping s =
     (if s = [] then []
      else
        (let (c, width) = DecodeRuneInString s
         in EncodeRune (mapping c) @ Map mapping (drop width s)))"
  by pat_completeness auto
termination
proof (relation "measure (\<lambda>(mapping, s). length s)")
  show "wf (measure (\<lambda>(mapping, s). length s))"
    by simp
next
  fix mapping :: "nat \<Rightarrow> nat" and s :: string and x :: "nat \<times> nat" and c width :: nat
  assume "s \<noteq> []" and "x = DecodeRuneInString s" and "(c, width) = x"
  then have "0 < width"
    by (cases s) (auto simp: DecodeRuneInString_def Let_def split: if_splits)
  with \<open>s \<noteq> []\<close> show "((mapping, drop width s), (mapping, s)) \<in> measure (\<lambda>(mapping, s). length s)"
    by (cases s) auto
qed

declare Map.simps [simp del]

text \<open>
  The case tables of the \<^verbatim>\<open>unicode\<close> package for the code points past ASCII
  (\<^verbatim>\<open>unicode.To(unicode.UpperCase, r)\<close> and \<^verbatim>\<open>unicode.To(unicode.LowerCase, r)\<close>).
  They belong to the Go library the program is built with, not to the source, and are
  taken as they are given.
\<close>

record Unicode =
  upper_table :: "nat \<Rightarrow> nat"
  lower_table :: "nat \<Rightarrow> nat"

text \<open>
  \<^verbatim>\<open>unicode.ToUpper\<close> and \<^verbatim>\<open>unicode.ToLower\<close>: the ASCII letters are shifted, the
  other ASCII code points are kept, and the rest is looked up in the table.
\<close>

definition unicode_ToUpper :: "Unicode \<Rightarrow> nat \<Rightarrow> nat" where
  "unicode_ToUpper u r =
     (if r \<le> 0x7F then (if 0x61 \<le> r \<and> r \<le> 0x7A then r - 0x20 else r)
      else upper_table u r)"

definition unicode_ToLower :: "Unicode \<Rightarrow> nat \<Rightarrow> nat" where
  "unicode_ToLower u r =
     (if r \<le> 0x7F then (if 0x41 \<le> r \<and> r \<le> 0x5A then r + 0x20 else r)
      else lower_table u r)"

text \<open>\<^verbatim>\<open>strings.ToUpper\<close> and \<^verbatim>\<open>strings.ToLower\<close>.\<close>

definition ToUpper :: "Unicode \<Rightarrow> string \<Rightarrow> string" where
  "ToUpper u s = Map (unicode_ToUpper u) s"

definition ToLower :: "Unicode \<Rightarrow> string \<Rightarrow> string" where
  "ToLower u s = Map (unicode_ToLower u) s"

section \<open>Identifiers and placeholder numbers\<close>

text \<open>
  What one command takes from outside the program: the first eight bytes of the SHA-256
  digest of the fresh random bytes (\<^verbatim>\<open>h.Sum(nil)[:8]\<close> in \<^verbatim>\<open>ComputeId\<close>), read as
  one 64-bit number; the raw draws behind the calls of \<^verbatim>\<open>rand.Int31n\<close>, in the order
  of the calls; the clock; the request body; the process boundary; and the case tables
  of the library. A command generates at most one identifier and makes at most two
  draws.
\<close>

record Env =
  digest :: "64 word"
  int31_1 :: nat
  int31_2 :: nat
  now :: Time
  body :: string
  host :: OS
  unicode :: Unicode

definition hexdigit :: "nat \<Rightarrow> char" where
  "hexdigit n = ''0123456789abcdef'' ! n"

text \<open>
  \<^verbatim>\<open>fmt.Sprintf("%x", h.Sum(nil)[:8])\<close>: two lower-case hexadecimal digits for each
  of the eight bytes, sixteen characters in all, the most significant first.
\<close>

definition ComputeId :: "64 word \<Rightarrow> string" where
  "ComputeId w = map (\<lambda>i. hexdigit ((unat w div 16 ^ (15 - i)) mod 16)) [0..<16]"

definition randomId :: "Env \<Rightarrow> string" where
  "randomId env = ComputeId (digest env)"

text \<open>
  \<^verbatim>\<open>rand.Int31n(n)\<close> for \<open>0 < n\<close>: the library reduces the raw draw \<open>v\<close> it accepted
  modulo \<open>n\<close>; the result is converted with \<^verbatim>\<open>uint(...)\<close>.
\<close>

definition Int31n :: "nat \<Rightarrow> nat \<Rightarrow> nat" where
  "Int31n v n = v mod n"

section \<open>The registry\<close>

text \<open>\<^verbatim>\<open>func (docker *Docker) addLayer(name string, source string, size uint) Layer\<close>.\<close>

definition addLayer :: "Docker \<Rightarrow> Env \<Rightarrow> string \<Rightarrow> string \<Rightarrow> 64 word \<Rightarrow> Docker \<times> Layer" where
  "addLayer docker env name source sz =
     (let sz = (if sz = 0 then of_nat (Int31n (int31_1 env) (142 * 1024 * 1024)) else sz);
          layer = \<lparr>Layer.Id = randomId env, Name = name, Added = now env, Size = sz,
                   Source = source\<rparr>
      in (docker\<lparr>layers := (layers docker)(Layer.Id layer \<mapsto> layer)\<rparr>, layer))"

section \<open>Command-line flags\<close>

text \<open>
  The commands parse their arguments with \<^verbatim>\<open>flag.FlagSet\<close> of the Go standard
  library, created by \<^verbatim>\<open>Subcmd\<close> with \<^verbatim>\<open>flag.ContinueOnError\<close>. The library is
  not part of the source; what the commands rely on is written out here, after the
  library's \<^verbatim>\<open>FlagSet.parseOne\<close> and \<^verbatim>\<open>FlagSet.Parse\<close>. A flag is boolean
  (\<^verbatim>\<open>flags.Bool\<close>) or takes a value (\<^verbatim>\<open>flags.Var\<close> with an \<^verbatim>\<open>ArgList\<close>).
\<close>

datatype FlagKind = BoolFlag | ValueFlag

datatype flag_error =
    ErrHelp
  | BadFlagSyntax string
  | NotDefined string
  | InvalidBoolean string string
  | NeedsArgument string

text \<open>\<^verbatim>\<open>strconv.ParseBool\<close>, which a boolean flag applies to a value given with \<open>=\<close>.\<close>

definition ParseBool :: "string \<Rightarrow> bool option" where
  "ParseBool v =
     (if v \<in> set [''1'', ''t'', ''T'', ''TRUE'', ''true'', ''True''] then Some True
      else if v \<in> set [''0'', ''f'', ''F'', ''FALSE'', ''false'', ''False''] then Some False
      else None)"

text \<open>
  The loop of \<^verbatim>\<open>parseOne\<close> that looks for the first \<open>=\<close> from the second character
  of the name on: the name is cut before it and the value is what follows it.
\<close>

definition split_value :: "string \<Rightarrow> string \<times> string option" where
  "split_value name =
     (case name of
        [] \<Rightarrow> ([], None)
      | c # cs \<Rightarrow>
          (if CHR ''='' \<in> set cs
           then (c # takeWhile (\<lambda>x. x \<noteq> CHR ''='') cs,
                 Some (drop 1 (dropWhile (\<lambda>x. x \<noteq> CHR ''='') cs)))
           else (name, None)))"

text \<open>
  One step of the parser on the remaining arguments: no flag at the front (the
  remaining arguments are the positional ones), a failure, or a flag seen, with the
  value handed to its \<^verbatim>\<open>Set\<close> method and the arguments left. A failure carries the
  calls of \<^verbatim>\<open>Set\<close> made in the step: the \<^verbatim>\<open>Set\<close> of a boolean flag stores
  \<^verbatim>\<open>false\<close> when its value does not parse, and then returns the error.
\<close>

datatype parse_step =
    NoFlag "string list"
  | Failure flag_error "(string \<times> string) list" "string list"
  | Seen string string "string list"

definition parseOne :: "(string \<rightharpoonup> FlagKind) \<Rightarrow> string list \<Rightarrow> parse_step" where
  "parseOne formal args =
     (case args of
        [] \<Rightarrow> NoFlag []
      | s # rest \<Rightarrow>
          (if length s < 2 \<or> take 1 s \<noteq> ''-'' then NoFlag args
           else if s = ''--'' then NoFlag rest
           else
             (let numMinuses = (if take 1 (drop 1 s) = ''-'' then 2 else 1);
                  name = drop numMinuses s
              in if name = [] \<or> take 1 name = ''-'' \<or> take 1 name = ''='' then
                   Failure (BadFlagSyntax s) [] args
                 else
                   (let (name, val) = split_value name
                    in case formal name of
                         None \<Rightarrow>
                           (if name = ''help'' \<or> name = ''h'' then Failure ErrHelp [] rest
                            else Failure (NotDefined name) [] rest)
                       | Some BoolFlag \<Rightarrow>
                           (case val of
                              Some v \<Rightarrow>
                                (case ParseBool v of
                                   None \<Rightarrow> Failure (InvalidBoolean v name) [(name, v)] rest
                                 | Some b \<Rightarrow> Seen name v rest)
                            | None \<Rightarrow> Seen name ''true'' rest)
                       | Some ValueFlag \<Rightarrow>
                           (case val of
                              Some v \<Rightarrow> Seen name v rest
                            | None \<Rightarrow>
                                (case rest of
                                   [] \<Rightarrow> Failure (NeedsArgument name) [] rest
                                 | v # rest' \<Rightarrow> Seen name v rest'))))))"

text \<open>
  \<^verbatim>\<open>FlagSet.Parse\<close>: steps until there is no flag at the front or a step fails. The
  result is the error, the values set in order (flag name, value), and the arguments
  left (\<^verbatim>\<open>flags.Args()\<close>).
\<close>

function Parse ::
  "(string \<rightharpoonup> FlagKind) \<Rightarrow> string list \<Rightarrow> flag_error option \<times> (string \<times> string) list \<times> string list"
  where
  "Parse formal args =
     (case parseOne formal args of
        NoFlag rest \<Rightarrow> (None, [], rest)
      | Failure err sets rest \<Rightarrow> (Some err, sets, rest)
      | Seen name v rest \<Rightarrow>
          (let (err, sets, rest') = Parse formal rest in (err, (name, v) # sets, rest')))"
  by pat_completeness auto
termination
  by (relation "measure (\<lambda>(formal, args). length args)")
    (auto simp: parseOne_def Let_def
      split: list.splits if_splits prod.splits option.splits FlagKind.splits)

text \<open>\<^verbatim>\<open>flags.Arg(i)\<close>: the \<open>i\<close>-th argument left, or the empty string.\<close>

definition Arg :: "string list \<Rightarrow> nat \<Rightarrow> string" where
  "Arg rest i = (if i < length rest then rest ! i else [])"

text \<open>\<^verbatim>\<open>func (l *ArgList) Set(value string) error\<close>: appends, and never fails.\<close>

definition ArgList_Set :: "string list \<Rightarrow> string \<Rightarrow> string list" where
  "ArgList_Set l v = l @ [v]"

text \<open>
  The value of an \<^verbatim>\<open>ArgList\<close> flag after parsing: empty, then each value set, in
  order. The value of a boolean flag: its default, then the values set, in order, a
  value that does not parse being stored as \<^verbatim>\<open>false\<close>.
\<close>

definition ArgList :: "string \<Rightarrow> (string \<times> string) list \<Rightarrow> string list" where
  "ArgList flag sets =
     foldl (\<lambda>l (name, v). if name = flag then ArgList_Set l v else l) [] sets"

definition Bool :: "string \<Rightarrow> bool \<Rightarrow> (string \<times> string) list \<Rightarrow> bool" where
  "Bool flag dflt sets =
     foldl (\<lambda>b (name, v).
              if name = flag then (case ParseBool v of Some b' \<Rightarrow> b' | None \<Rightarrow> False) else b)
       dflt sets"

section \<open>The commands\<close>

text \<open>
  What a command writes to its output stream, in order. Fixed text and the child's output
  are written out; text rendered by the \<^verbatim>\<open>flag\<close>, \<^verbatim>\<open>fmt\<close> and
  \<^verbatim>\<open>tabwriter\<close> libraries from numbers, durations and the iteration order of a Go map
  is recorded as an item that names what is rendered.
\<close>

datatype Out =
    Text string
  | FlagMessage flag_error
  | Usage string string string
  | LayerRows bool string
  | ContainerRows
  | NewLayerLine Layer
  | ErrorLine error

text \<open>A call of a Go function returns, or panics.\<close>

datatype 'a outcome = Returned 'a | Panic

type_synonym reply = "Docker \<times> Out list \<times> error option outcome"

text \<open>
  What the flag set made by \<^verbatim>\<open>Subcmd(output, name, signature, description)\<close> writes
  when \<^verbatim>\<open>Parse\<close> fails: the usage alone for a request for help, the message and the
  usage otherwise.
\<close>

definition Subcmd_output :: "string \<Rightarrow> string \<Rightarrow> string \<Rightarrow> flag_error option \<Rightarrow> Out list" where
  "Subcmd_output name signature description err =
     (case err of
        None \<Rightarrow> []
      | Some ErrHelp \<Rightarrow> [Usage name signature description]
      | Some e \<Rightarrow> [FlagMessage e, Usage name signature description])"

definition CmdLayers :: "Docker \<Rightarrow> string list \<Rightarrow> reply" where
  "CmdLayers docker args =
     (let (err, sets, rest) = Parse [''q'' \<mapsto> BoolFlag] args;
          out = Subcmd_output ''layers'' ''[OPTIONS] [NAME]'' ''Show available filesystem layers'' err;
          quiet = Bool ''q'' False sets
      in if length rest > 1 then
           (docker,
            out @ [Usage ''layers'' ''[OPTIONS] [NAME]'' ''Show available filesystem layers''],
            Returned None)
         else
           (let nameFilter = (if length rest = 1 then Arg rest 0 else [])
            in (docker, out @ [LayerRows quiet nameFilter], Returned None)))"

definition CmdGet :: "Docker \<Rightarrow> Env \<Rightarrow> string list \<Rightarrow> reply" where
  "CmdGet docker env args =
     (if length args < 1 then (docker, [], Returned (Some (errors_New ''Not enough arguments'')))
      else
        (let out = [Text (''Downloading from '' @ args ! 0 @ ''...\<newline>'')];
             (docker, layer) = addLayer docker env (args ! 0) ''download'' 0
         in (docker, out @ [NewLayerLine layer], Returned None)))"

definition CmdPut :: "Docker \<Rightarrow> Env \<Rightarrow> string list \<Rightarrow> reply" where
  "CmdPut docker env args =
     (if length args < 1 then (docker, [], Returned (Some (errors_New ''Not enough arguments'')))
      else
        (let (docker, layer) = addLayer docker env (args ! 0) ''upload'' 0
         in (docker, [NewLayerLine layer], Returned None)))"

definition CmdExport :: "Docker \<Rightarrow> Env \<Rightarrow> string list \<Rightarrow> reply" where
  "CmdExport docker env args =
     (let (err, sets, rest) = Parse [''s'' \<mapsto> BoolFlag] args;
          out = Subcmd_output ''export'' ''CONTAINER LAYER''
                  ''Create a new layer from the changes on a container's filesystem'' err
      in if err \<noteq> None then (docker, out, Returned None)
         else if length rest < 2 then
           (docker, out, Returned (Some (errors_New ''Not enough arguments'')))
         else
           (case containers docker (Arg rest 0) of
              None \<Rightarrow> (docker, out, Returned (Some (errors_New ''No such container'')))
            | Some container \<Rightarrow>
                (let (docker, layer) =
                       addLayer docker env (Arg rest 1) (''export:'' @ Container.Id container)
                         (BytesChanged container)
                 in (docker, out @ [NewLayerLine layer], Returned None))))"

text \<open>
  The loop of \<^verbatim>\<open>CmdRun\<close> over the names given with \<^verbatim>\<open>-l\<close> (lines 174 to 186): a
  name is looked up among the layers first, then among the containers, whose layers
  are appended one by one; a name found in neither ends the command with an error.
\<close>

fun add_layers :: "Docker \<Rightarrow> string list \<Rightarrow> Container \<Rightarrow> error + Container" where
  "add_layers docker [] container = Inr container"
| "add_layers docker (name # names) container =
     (case layers docker name of
        None \<Rightarrow>
          (case containers docker name of
             Some srcContainer \<Rightarrow>
               add_layers docker names
                 (foldl (\<lambda>c layer. c\<lparr>Layers := Layers c @ [layer]\<rparr>) container
                    (Layers srcContainer))
           | None \<Rightarrow> Inl (errors_New (''No such layer or container: '' @ name)))
      | Some layer \<Rightarrow>
          add_layers docker names (container\<lparr>Layers := Layers container @ [layer]\<rparr>))"

text \<open>
  \<^verbatim>\<open>CmdRun\<close>, with the moments of its call of \<^verbatim>\<open>Run\<close>. The assignment of line 187
  stores a copy of the struct in the map (the map holds values, and an element of a Go
  map has no address); \<^verbatim>\<open>container.Run\<close> of line 188 passes the address of the local
  variable \<^verbatim>\<open>container\<close>, so what \<^verbatim>\<open>Run\<close> writes, it writes to the local variable.
  A moment is the registry next to the local variable: when \<^verbatim>\<open>Run\<close> is called, while
  the statements of \<^verbatim>\<open>Run\<close> are executed up to its \<^verbatim>\<open>return\<close>, and when \<^verbatim>\<open>Run\<close>
  has returned. There are no moments when \<^verbatim>\<open>Run\<close> is not called.
\<close>

definition CmdRun_steps ::
  "Docker \<Rightarrow> Env \<Rightarrow> string list \<Rightarrow> (Docker \<times> Container) list \<times> reply" where
  "CmdRun_steps docker env args =
     (let (err, sets, rest) = Parse [''l'' \<mapsto> ValueFlag] args;
          out = Subcmd_output ''run'' ''-l LAYER [-l LAYER...] COMMAND {ARG...]''
                  ''Run a command in a container'' err;
          fl_layers = ArgList ''l'' sets
      in if err \<noteq> None then ([], docker, out, Returned None)
         else if length fl_layers < 1 then
           ([], docker, out, Returned (Some (errors_New ''Please specify at least one layer'')))
         else if length rest < 1 then
           ([], docker, out, Returned (Some (errors_New ''No command specified'')))
         else
           (let cmd = Arg rest 0;
                cmd_args = (if length rest > 1 then drop 1 rest else []);
                container = \<lparr>Container.Id = randomId env, Cmd = cmd, Args = cmd_args,
                    Layers = [], Created = now env,
                    FilesChanged = of_nat (Int31n (int31_1 env) 42),
                    BytesChanged = of_nat (Int31n (int31_2 env) (24 * 1024 * 1024)),
                    Running = False\<rparr>
            in case add_layers docker fl_layers container of
                 Inl err \<Rightarrow> ([], docker, out, Returned (Some err))
               | Inr container \<Rightarrow>
                   (let docker = docker\<lparr>containers :=
                          (containers docker)(Container.Id container \<mapsto> container)\<rparr>;
                        (running, deferred, eff, result) =
                          Run_frame container (host env) (body env);
                        returned = fold run_deferred deferred running
                    in ([(docker, container), (docker, running), (docker, returned)],
                        docker, out @ [Text (stdout_written eff)], Returned result))))"

definition CmdRun :: "Docker \<Rightarrow> Env \<Rightarrow> string list \<Rightarrow> reply" where
  "CmdRun docker env args = snd (CmdRun_steps docker env args)"

text \<open>
  \<^verbatim>\<open>CmdClone\<close>, with the moments of the call of \<^verbatim>\<open>Run\<close> its call of \<^verbatim>\<open>CmdRun\<close>
  makes.
\<close>

definition CmdClone_steps ::
  "Docker \<Rightarrow> Env \<Rightarrow> string list \<Rightarrow> (Docker \<times> Container) list \<times> reply" where
  "CmdClone_steps docker env args =
     (let (err, sets, rest) = Parse [''r'' \<mapsto> BoolFlag] args;
          out = Subcmd_output ''Clone'' ''[OPTIONS] CONTAINER_ID'' ''Duplicate a container'' err;
          reset = Bool ''r'' True sets
      in if \<not> reset then
           ([], docker, out,
            Returned (Some (errors_New ''Only reset mode is available for now. Please use -r'')))
         else if length rest \<noteq> 1 then
           ([], docker,
            out @ [Usage ''Clone'' ''[OPTIONS] CONTAINER_ID'' ''Duplicate a container''],
            Returned None)
         else
           (case containers docker (Arg rest 0) of
              None \<Rightarrow>
                ([], docker, out,
                 Returned (Some (errors_New (''No such container: '' @ Arg rest 0))))
            | Some container \<Rightarrow>
                (let (moments, docker, out', result) =
                       CmdRun_steps docker env
                         ([''-l'', Container.Id container, ''--'', Cmd container] @ Args container)
                 in (moments, docker, out @ out', result))))"

definition CmdClone :: "Docker \<Rightarrow> Env \<Rightarrow> string list \<Rightarrow> reply" where
  "CmdClone docker env args = snd (CmdClone_steps docker env args)"

definition CmdList :: "Docker \<Rightarrow> string list \<Rightarrow> reply" where
  "CmdList docker args = (docker, [ContainerRows], Returned None)"

text \<open>
  The text \<^verbatim>\<open>CmdHelp\<close> writes when it has no argument: the heading, then one line for
  each command, the name padded and cut to ten characters (\<^verbatim>\<open>%-10.10s\<close>).
\<close>

definition help_commands :: "(string \<times> string) list" where
  "help_commands =
     [(''run'', ''Run a command in a container''),
      (''clone'', ''Duplicate a container''),
      (''list'', ''Display a list of containers''),
      (''layers'', ''Display a list of layers''),
      (''get'', ''Download a layer from a remote location''),
      (''wait'', ''Wait for the state of a container to change''),
      (''stop'', ''Stop a running container''),
      (''logs'', ''Fetch the logs of a container''),
      (''export'', ''Extract changes to a container's filesystem into a new layer''),
      (''attach'', ''Attach to the standard inputs and outputs of a running container''),
      (''info'', ''Display system-wide information'')]"

definition pad10 :: "string \<Rightarrow> string" where
  "pad10 s = take 10 s @ replicate (10 - length (take 10 s)) CHR '' ''"

definition command_summary :: string where
  "command_summary =
     ''Usage: docker COMMAND [arg...]\<newline>\<newline>A self-sufficient runtime for linux containers.\<newline>\<newline>Commands:\<newline>''
     @ concat (map (\<lambda>(cmd, description). ''    '' @ pad10 cmd @ description @ ''\<newline>'')
         help_commands)"

text \<open>
  Modelled from the spec: \<^verbatim>\<open>CmdUsage\<close>, which \<^verbatim>\<open>ServeHTTP\<close> calls as a method of
  \<^verbatim>\<open>*Docker\<close> on the request body, the response writer and one string, is not defined
  in the source. The spec (4.3, help/usage behaviour): invoking with no recognized
  command writes a fixed command summary to the output stream and returns success, not
  an error. The fixed summary is taken to be the one \<^verbatim>\<open>CmdHelp\<close> writes.
\<close>

definition CmdUsage :: "Docker \<Rightarrow> string list \<Rightarrow> reply" where
  "CmdUsage docker args = (docker, [Text command_summary], Returned None)"

section \<open>Dispatch\<close>

text \<open>
  The methods of \<^verbatim>\<open>*Docker\<close> that \<^verbatim>\<open>reflect\<close> can find under a name that starts
  with \<^verbatim>\<open>Cmd\<close>: the eight commands of the source, and \<^verbatim>\<open>CmdUsage\<close>, which
  \<^verbatim>\<open>ServeHTTP\<close> calls as a method.
\<close>

datatype Method =
    Method_CmdHelp
  | Method_CmdLayers
  | Method_CmdGet
  | Method_CmdPut
  | Method_CmdExport
  | Method_CmdRun
  | Method_CmdClone
  | Method_CmdList
  | Method_CmdUsage

definition MethodByName :: "string \<Rightarrow> Method option" where
  "MethodByName methodName =
     map_of
       [(''CmdHelp'', Method_CmdHelp),
        (''CmdLayers'', Method_CmdLayers),
        (''CmdGet'', Method_CmdGet),
        (''CmdPut'', Method_CmdPut),
        (''CmdExport'', Method_CmdExport),
        (''CmdRun'', Method_CmdRun),
        (''CmdClone'', Method_CmdClone),
        (''CmdList'', Method_CmdList),
        (''CmdUsage'', Method_CmdUsage)] methodName"

text \<open>
  \<^verbatim>\<open>getMethod\<close>: the name is normalised and looked up; the result is the method the
  returned closure calls, or \<^verbatim>\<open>nil\<close>. \<^verbatim>\<open>name[:1]\<close> is the first byte of the
  name; slicing the empty name panics. The case tables of the library are the first
  argument.
\<close>

definition getMethod :: "Unicode \<Rightarrow> string \<Rightarrow> Method option outcome" where
  "getMethod u name =
     (if length name < 1 then Panic
      else
        (let methodName = ''Cmd'' @ ToUpper u (take 1 name) @ ToLower u (drop 1 name)
         in Returned (MethodByName methodName)))"

text \<open>
  \<^verbatim>\<open>CmdHelp\<close>, and the call of the closure \<^verbatim>\<open>getMethod\<close> returns (\<open>call\<close>),
  both with the moments of the calls of \<^verbatim>\<open>Run\<close> made on the way. \<^verbatim>\<open>CmdHelp\<close>
  with an argument calls that command with \<^verbatim>\<open>--help\<close> and drops what it returns.
\<close>

function CmdHelp_steps ::
    "Docker \<Rightarrow> Env \<Rightarrow> string list \<Rightarrow> (Docker \<times> Container) list \<times> reply"
  and call_steps ::
    "Method \<Rightarrow> Docker \<Rightarrow> Env \<Rightarrow> string list \<Rightarrow> (Docker \<times> Container) list \<times> reply"
  where
  "CmdHelp_steps docker env args =
     (if length args = 0 then ([], docker, [Text command_summary], Returned None)
      else
        (case getMethod (unicode env) (args ! 0) of
           Panic \<Rightarrow> ([], docker, [], Panic)
         | Returned None \<Rightarrow>
             ([], docker, [], Returned (Some (errors_New (''No such command: '' @ args ! 0))))
         | Returned (Some method) \<Rightarrow>
             (case call_steps method docker env [''--help''] of
                (moments, docker, out, Panic) \<Rightarrow> (moments, docker, out, Panic)
              | (moments, docker, out, Returned r) \<Rightarrow> (moments, docker, out, Returned None))))"
| "call_steps method docker env args =
     (case method of
        Method_CmdHelp \<Rightarrow> CmdHelp_steps docker env args
      | Method_CmdLayers \<Rightarrow> ([], CmdLayers docker args)
      | Method_CmdGet \<Rightarrow> ([], CmdGet docker env args)
      | Method_CmdPut \<Rightarrow> ([], CmdPut docker env args)
      | Method_CmdExport \<Rightarrow> ([], CmdExport docker env args)
      | Method_CmdRun \<Rightarrow> CmdRun_steps docker env args
      | Method_CmdClone \<Rightarrow> CmdClone_steps docker env args
      | Method_CmdList \<Rightarrow> ([], CmdList docker args)
      | Method_CmdUsage \<Rightarrow> ([], CmdUsage docker args))"
  by pat_completeness auto

termination
proof -
  have "\<And>u. getMethod u ''--help'' = Returned None"
  proof -
    fix u
    have ascii: "Map f (c # s) = EncodeRune (f (of_char c)) @ Map f s"
      if "(of_char c :: nat) < 0x80" for f c s
      using that by (subst Map.simps) (simp add: DecodeRuneInString_def)
    have nil: "Map f [] = []" for f
      by (simp add: Map.simps)
    show "getMethod u ''--help'' = Returned None"
      by (simp add: getMethod_def MethodByName_def ToUpper_def ToLower_def ascii nil
          unicode_ToUpper_def unicode_ToLower_def EncodeRune_def char_of_eq_iff)
  qed
  then show ?thesis
    by (relation "measure (\<lambda>x. case x of
         Inl (docker, env, args) \<Rightarrow>
           (if args \<noteq> [] \<and> (\<exists>m. getMethod (unicode env) (args ! 0) = Returned (Some m))
            then 2 else 0)
       | Inr (method, docker, env, args) \<Rightarrow>
           (if args \<noteq> [] \<and> (\<exists>m. getMethod (unicode env) (args ! 0) = Returned (Some m))
            then 3 else 1))")
      auto
qed

declare CmdHelp_steps.simps [simp del] call_steps.simps [simp del]

definition CmdHelp :: "Docker \<Rightarrow> Env \<Rightarrow> string list \<Rightarrow> reply" where
  "CmdHelp docker env args = snd (CmdHelp_steps docker env args)"

definition call :: "Method \<Rightarrow> Docker \<Rightarrow> Env \<Rightarrow> string list \<Rightarrow> reply" where
  "call method docker env args = snd (call_steps method docker env args)"

text \<open>
  \<^verbatim>\<open>ServeHTTP\<close>, on the command name and the arguments \<^verbatim>\<open>URLToCall\<close> took from the
  request. The handler returns nothing: an error of the command becomes a line of the
  response. The result is the moments of the calls of \<^verbatim>\<open>Run\<close> made during the
  request, the registry after the request, what was written, and whether the handler
  returned or panicked.
\<close>

definition ServeHTTP_steps ::
  "Docker \<Rightarrow> Env \<Rightarrow> string \<Rightarrow> string list
     \<Rightarrow> (Docker \<times> Container) list \<times> Docker \<times> Out list \<times> unit outcome" where
  "ServeHTTP_steps docker env cmd args =
     (if cmd = [] then
        (case CmdUsage docker [''''] of
           (docker, out, Panic) \<Rightarrow> ([], docker, out, Panic)
         | (docker, out, Returned r) \<Rightarrow> ([], docker, out, Returned ()))
      else
        (case getMethod (unicode env) cmd of
           Panic \<Rightarrow> ([], docker, [], Panic)
         | Returned None \<Rightarrow>
             (case CmdUsage docker [cmd] of
                (docker, out, Panic) \<Rightarrow> ([], docker, out, Panic)
              | (docker, out, Returned r) \<Rightarrow> ([], docker, out, Returned ()))
         | Returned (Some method) \<Rightarrow>
             (case call_steps method docker env args of
                (moments, docker, out, Panic) \<Rightarrow> (moments, docker, out, Panic)
              | (moments, docker, out, Returned None) \<Rightarrow> (moments, docker, out, Returned ())
              | (moments, docker, out, Returned (Some err)) \<Rightarrow>
                  (moments, docker, out @ [ErrorLine err], Returned ()))))"

definition ServeHTTP :: "Docker \<Rightarrow> Env \<Rightarrow> string \<Rightarrow> string list \<Rightarrow> Docker \<times> Out list \<times> unit outcome" where
  "ServeHTTP docker env cmd args = snd (ServeHTTP_steps docker env cmd args)"

text \<open>
  The registries the service can be in: the one \<^verbatim>\<open>New\<close> makes, and the one any
  request leaves behind, whatever the request and whatever the outside world does.
\<close>

inductive reachable :: "Docker \<Rightarrow> bool" where
  reachable_New: "reachable New"
| reachable_ServeHTTP:
    "reachable docker \<Longrightarrow> reachable (fst (ServeHTTP docker env cmd args))"

text \<open>
  The normalisation of a command name in the words of the spec: the first character in
  upper case, the remainder in lower case (the first character being the first byte,
  as in the source).
\<close>

definition normalize_name :: "Unicode \<Rightarrow> string \<Rightarrow> string" where
  "normalize_name u name = (case name of [] \<Rightarrow> [] | c # cs \<Rightarrow> ToUpper u [c] @ ToLower u cs)"

section \<open>Sample inputs\<close>

text \<open>
  An outside world in which every call succeeds and the child prints \<open>hi\<close>; case
  tables with the two entries that map a code point past ASCII to an ASCII letter of a
  command name (U+0130 to \<open>i\<close>, U+212A to \<open>k\<close>); a request that draws the given
  digest; a layer and a container.
\<close>

definition quiet_os :: OS where
  "quiet_os = \<lparr>pty_err = None, stdin_pipe_err = None, stdout_pipe_err = None,
     start_err = None, wait_err = None, child_output = ''hi'', copy_err = None\<rparr>"

definition sample_unicode :: Unicode where
  "sample_unicode = \<lparr>upper_table = (\<lambda>r. r),
     lower_table = (\<lambda>r. if r = 0x130 then 0x69 else if r = 0x212A then 0x6B else r)\<rparr>"

definition sample_env :: "64 word \<Rightarrow> Env" where
  "sample_env w = \<lparr>digest = w, int31_1 = 0, int31_2 = 0, now = 0, body = ''typed'',
     host = quiet_os, unicode = sample_unicode\<rparr>"

definition sample_layer :: Layer where
  "sample_layer = \<lparr>Layer.Id = ''0000000000000001'', Name = ''base'', Added = 0, Size = 0,
     Source = ''download''\<rparr>"

definition sample_container :: "bool \<Rightarrow> Container" where
  "sample_container r = \<lparr>Container.Id = ''00000000000000c1'', Cmd = ''echo'', Args = [''hi''],
     Layers = [sample_layer], Created = 0, FilesChanged = 0, BytesChanged = 0, Running = r\<rparr>"

text \<open>
  The registry after \<^verbatim>\<open>get base\<close>, and after \<^verbatim>\<open>run -l 0000000000000001 echo hi\<close>
  on top of it.
\<close>

definition registry_1 :: Docker where
  "registry_1 = fst (ServeHTTP New (sample_env 1) ''get'' [''base''])"

definition registry_2 :: Docker where
  "registry_2 =
     fst (ServeHTTP registry_1 (sample_env 0xc1) ''run''
            [''-l'', ''0000000000000001'', ''echo'', ''hi''])"

section \<open>Container.Run\<close>

lemma Run_body_cases:
  "snd (Run_body c os stdin) =
     (case startCommand os False of
        Inl err \<Rightarrow> Some err
      | Inr s \<Rightarrow> (case wait_err os of Some err \<Rightarrow> Some err | None \<Rightarrow> copy_err os))"
  by (simp add: Run_body_def copy_out_func_def copy_in_func_def Let_def
      split: sum.splits option.splits prod.splits)

lemma Run_result:
  "\<not> Running c \<Longrightarrow>
     snd (snd (Run c os stdin)) = snd (Run_body (c\<lparr>Running := True\<rparr>) os stdin)"
  by (simp add: Run_def Run_frame_def Let_def split: prod.splits)

lemma Run_effects:
  "\<not> Running c \<Longrightarrow>
     fst (snd (Run c os stdin)) = fst (Run_body (c\<lparr>Running := True\<rparr>) os stdin)"
  by (simp add: Run_def Run_frame_def Let_def split: prod.splits)

lemma startCommand_copy_err [simp]:
  "startCommand (os\<lparr>copy_err := ce\<rparr>) b = startCommand os b"
  by (simp add: startCommand_def split: option.splits)

lemma Run_body_received:
  "startCommand os False = Inr s \<Longrightarrow>
     received (fst (Run_body c os stdin)) =
       (case wait_err os of Some err \<Rightarrow> [] | None \<Rightarrow> [copy_in, copy_out])"
  by (simp add: Run_body_def copy_out_func_def copy_in_func_def no_effects_def Let_def
      split: sum.splits option.splits prod.splits)

lemma Run_body_input:
  "child_stdin (fst (Run_body c os stdin)) = [] \<and>
   received (fst (Run_body c os stdin)) \<noteq> [copy_in]"
  by (simp add: Run_body_def copy_out_func_def copy_in_func_def no_effects_def Let_def
      split: sum.splits option.splits prod.splits)

lemma Run_body_closed:
  "startCommand os False = Inr s \<Longrightarrow>
     cmd_stdin_closed (fst (Run_body c os stdin)) \<and> stdin_closed (fst (Run_body c os stdin))"
  by (simp add: Run_body_def copy_out_func_def copy_in_func_def no_effects_def Let_def
      split: sum.splits option.splits prod.splits)

lemma Run_body_ignores_input: "Run_body c os stdin = Run_body c os stdin'"
  by (simp add: Run_body_def copy_in_func_def Let_def split: sum.splits prod.splits)

lemma Run_ignores_input: "Run c os stdin = Run c os stdin'"
  by (simp add: Run_def Run_frame_def Run_body_ignores_input [of _ os stdin stdin'])

lemma Run_frame_idle:
  "\<not> Running c \<Longrightarrow>
     Run_frame c os stdin = (c\<lparr>Running := True\<rparr>, [clear_Running],
       Run_body (c\<lparr>Running := True\<rparr>) os stdin)"
  by (simp add: Run_frame_def Let_def split: prod.splits)

lemma clear_idle: "\<not> Running c \<Longrightarrow> c\<lparr>Running := False\<rparr> = c"
  by (cases c) simp

text \<open>
  C1. A container whose \<open>Running\<close> flag is set: \<open>Run\<close> returns the error
  "Already running" at once, starts no process and has no other effect, and the
  container is the one it was given, the flag and every other field.
\<close>

theorem C1_Run_already_running:
  "Running c \<Longrightarrow>
     Run c os stdin = (c, no_effects, Some (errors_New ''Already running'')) \<and>
     spawned (fst (snd (Run c os stdin))) = [] \<and>
     fst (Run c os stdin) = c"
  by (simp add: Run_def Run_frame_def no_effects_def)

theorem C1_witness:
  "Running (sample_container True) \<and>
   Run (sample_container True) quiet_os ''typed'' =
     (sample_container True, no_effects, Some (errors_New ''Already running'')) \<and>
   spawned (fst (snd (Run (sample_container True) quiet_os ''typed''))) = []"
  using C1_Run_already_running [of "sample_container True" quiet_os "''typed''"]
  by (simp add: sample_container_def no_effects_def)

text \<open>
  C2. A container whose \<open>Running\<close> flag is clear at entry, whatever the outside world
  does (the command does not start, the child exits with an error, the copy fails, or
  all goes well): when the statements of \<open>Run\<close> reach their \<^verbatim>\<open>return\<close> the flag
  is still set, so no exit path has reset it; exactly one deferred function is pending,
  the release; the container \<open>Run\<close> leaves is the one that deferred function makes of
  the container at the \<^verbatim>\<open>return\<close>; and its flag is clear.
\<close>

theorem C2_Run_releases_flag:
  "\<not> Running c \<Longrightarrow>
     \<not> Running (fst (Run c os stdin)) \<and>
     Running (fst (Run_frame c os stdin)) \<and>
     fst (Run_frame c os stdin) = c\<lparr>Running := True\<rparr> \<and>
     fst (snd (Run_frame c os stdin)) = [clear_Running] \<and>
     fst (Run c os stdin) = run_deferred clear_Running (fst (Run_frame c os stdin)) \<and>
     snd (Run c os stdin) = snd (snd (Run_frame c os stdin))"
  by (simp add: Run_def Run_frame_idle run_deferred_def split: prod.splits)

text \<open>
  The four ways out of \<open>Run\<close> past the guard, each at a sample outside world: the
  command does not start, the child exits with an error, the copy of the output fails,
  all goes well.
\<close>

lemma Run_exit_paths:
  "snd (snd (Run (sample_container False)
      (quiet_os\<lparr>start_err := Some (OSError ''not found'')\<rparr>) ''typed''))
     = Some (OSError ''not found'')"
  "snd (snd (Run (sample_container False)
      (quiet_os\<lparr>wait_err := Some (OSError ''exit status 1'')\<rparr>) ''typed''))
     = Some (OSError ''exit status 1'')"
  "snd (snd (Run (sample_container False)
      (quiet_os\<lparr>copy_err := Some (OSError ''broken pipe'')\<rparr>) ''typed''))
     = Some (OSError ''broken pipe'')"
  "snd (snd (Run (sample_container False) quiet_os ''typed'')) = None"
  by (simp_all add: Run_result sample_container_def Run_body_cases quiet_os_def
      startCommand_def)

theorem C2_witness:
  "\<not> Running (sample_container False) \<and>
   \<not> Running (fst (Run (sample_container False)
       (quiet_os\<lparr>start_err := Some (OSError ''not found'')\<rparr>) ''typed'')) \<and>
   \<not> Running (fst (Run (sample_container False)
       (quiet_os\<lparr>wait_err := Some (OSError ''exit status 1'')\<rparr>) ''typed'')) \<and>
   \<not> Running (fst (Run (sample_container False)
       (quiet_os\<lparr>copy_err := Some (OSError ''broken pipe'')\<rparr>) ''typed'')) \<and>
   \<not> Running (fst (Run (sample_container False) quiet_os ''typed'')) \<and>
   Running (fst (Run_frame (sample_container False)
       (quiet_os\<lparr>wait_err := Some (OSError ''exit status 1'')\<rparr>) ''typed'')) \<and>
   fst (snd (Run_frame (sample_container False)
       (quiet_os\<lparr>wait_err := Some (OSError ''exit status 1'')\<rparr>) ''typed''))
     = [clear_Running]"
proof -
  have r: "\<not> Running (sample_container False)"
    by (simp add: sample_container_def)
  from r
    C2_Run_releases_flag [OF r, of
      "quiet_os\<lparr>start_err := Some (OSError ''not found'')\<rparr>" "''typed''"]
    C2_Run_releases_flag [OF r, of
      "quiet_os\<lparr>wait_err := Some (OSError ''exit status 1'')\<rparr>" "''typed''"]
    C2_Run_releases_flag [OF r, of
      "quiet_os\<lparr>copy_err := Some (OSError ''broken pipe'')\<rparr>" "''typed''"]
    C2_Run_releases_flag [OF r, of quiet_os "''typed''"]
  show ?thesis
    by blast
qed

text \<open>
  C6. Once the command has started: if waiting for the child returns an error, \<open>Run\<close>
  returns that error, whatever the copy of the output returned, and it has received
  from neither channel; the error of the copy of the output is the result of \<open>Run\<close>
  only when waiting for the child returned no error.
\<close>

theorem C6_process_error_first:
  assumes "\<not> Running c" and "startCommand os False = Inr s"
  shows "(\<forall>err. wait_err os = Some err \<longrightarrow>
            (\<forall>ce. snd (snd (Run c (os\<lparr>copy_err := ce\<rparr>) stdin)) = Some err) \<and>
            received (fst (snd (Run c os stdin))) = []) \<and>
         (wait_err os = None \<longrightarrow>
            snd (snd (Run c os stdin)) = copy_err os \<and>
            received (fst (snd (Run c os stdin))) = [copy_in, copy_out])"
  using assms
  by (simp add: Run_result Run_effects Run_body_cases Run_body_received)

theorem C6_witness:
  "\<not> Running (sample_container False) \<and>
   startCommand (quiet_os\<lparr>wait_err := Some (OSError ''exit status 2'')\<rparr>) False
     = Inr (StdinPipe, StdoutPipe) \<and>
   snd (snd (Run (sample_container False)
      (quiet_os\<lparr>wait_err := Some (OSError ''exit status 2''),
                copy_err := Some (OSError ''broken pipe'')\<rparr>) ''typed''))
     = Some (OSError ''exit status 2'') \<and>
   received (fst (snd (Run (sample_container False)
      (quiet_os\<lparr>wait_err := Some (OSError ''exit status 2'')\<rparr>) ''typed''))) = []"
proof -
  have r: "\<not> Running (sample_container False)"
    by (simp add: sample_container_def)
  have s: "startCommand (quiet_os\<lparr>wait_err := Some (OSError ''exit status 2'')\<rparr>) False
     = Inr (StdinPipe, StdoutPipe)"
    by (simp add: startCommand_def quiet_os_def)
  show ?thesis
    using r s C6_process_error_first [OF r s, of "''typed''"] by simp
qed

text \<open>
  C9. Once the command has started, the child's input sink and the caller's input
  stream are both closed, and nothing is written to the child's standard input:
  \<open>Run\<close> does the same whatever the caller sent. The goroutine that closes them
  always reports no error, and \<open>Run\<close> never returns just after receiving from it.
\<close>

theorem C9_input_discarded:
  assumes "\<not> Running c" and "startCommand os False = Inr s"
  shows "cmd_stdin_closed (fst (snd (Run c os stdin))) \<and>
         stdin_closed (fst (snd (Run c os stdin))) \<and>
         child_stdin (fst (snd (Run c os stdin))) = [] \<and>
         snd (copy_in_func stdin eff) = None \<and>
         received (fst (snd (Run c os stdin))) \<noteq> [copy_in] \<and>
         Run c os [] = Run c os stdin"
  using assms Run_ignores_input [of c os "[]" stdin]
  by (simp add: Run_effects Run_body_input Run_body_closed copy_in_func_def)

theorem C9_witness:
  "\<not> Running (sample_container False) \<and>
   startCommand quiet_os False = Inr (StdinPipe, StdoutPipe) \<and>
   cmd_stdin_closed (fst (snd (Run (sample_container False) quiet_os ''typed''))) \<and>
   stdin_closed (fst (snd (Run (sample_container False) quiet_os ''typed''))) \<and>
   child_stdin (fst (snd (Run (sample_container False) quiet_os ''typed''))) = []"
proof -
  have r: "\<not> Running (sample_container False)"
    by (simp add: sample_container_def)
  have s: "startCommand quiet_os False = Inr (StdinPipe, StdoutPipe)"
    by (simp add: startCommand_def quiet_os_def)
  show ?thesis
    using r s C9_input_discarded [OF r s, of "''typed''"] by simp
qed

section \<open>The replies of the commands\<close>

text \<open>
  The commands without the moments: the equations of \<open>CmdClone\<close>, \<open>CmdHelp\<close>,
  \<open>call\<close> and \<open>ServeHTTP\<close> on the replies alone.
\<close>

lemma CmdClone_simps:
  "CmdClone docker env args =
     (let (err, sets, rest) = Parse [''r'' \<mapsto> BoolFlag] args;
          out = Subcmd_output ''Clone'' ''[OPTIONS] CONTAINER_ID'' ''Duplicate a container'' err;
          reset = Bool ''r'' True sets
      in if \<not> reset then
           (docker, out,
            Returned (Some (errors_New ''Only reset mode is available for now. Please use -r'')))
         else if length rest \<noteq> 1 then
           (docker, out @ [Usage ''Clone'' ''[OPTIONS] CONTAINER_ID'' ''Duplicate a container''],
            Returned None)
         else
           (case containers docker (Arg rest 0) of
              None \<Rightarrow>
                (docker, out, Returned (Some (errors_New (''No such container: '' @ Arg rest 0))))
            | Some container \<Rightarrow>
                (let (docker, out', result) =
                       CmdRun docker env
                         ([''-l'', Container.Id container, ''--'', Cmd container] @ Args container)
                 in (docker, out @ out', result))))"
  by (simp add: CmdClone_def CmdClone_steps_def CmdRun_def Let_def
      split: prod.splits option.splits)

lemma CmdHelp_simps:
  "CmdHelp docker env args =
     (if length args = 0 then (docker, [Text command_summary], Returned None)
      else
        (case getMethod (unicode env) (args ! 0) of
           Panic \<Rightarrow> (docker, [], Panic)
         | Returned None \<Rightarrow>
             (docker, [], Returned (Some (errors_New (''No such command: '' @ args ! 0))))
         | Returned (Some method) \<Rightarrow>
             (case call method docker env [''--help''] of
                (docker, out, Panic) \<Rightarrow> (docker, out, Panic)
              | (docker, out, Returned r) \<Rightarrow> (docker, out, Returned None))))"
  unfolding CmdHelp_def call_def
  by (subst CmdHelp_steps.simps) (simp split: outcome.splits option.splits prod.splits)

lemma call_simps:
  "call method docker env args =
     (case method of
        Method_CmdHelp \<Rightarrow> CmdHelp docker env args
      | Method_CmdLayers \<Rightarrow> CmdLayers docker args
      | Method_CmdGet \<Rightarrow> CmdGet docker env args
      | Method_CmdPut \<Rightarrow> CmdPut docker env args
      | Method_CmdExport \<Rightarrow> CmdExport docker env args
      | Method_CmdRun \<Rightarrow> CmdRun docker env args
      | Method_CmdClone \<Rightarrow> CmdClone docker env args
      | Method_CmdList \<Rightarrow> CmdList docker args
      | Method_CmdUsage \<Rightarrow> CmdUsage docker args)"
  unfolding call_def CmdHelp_def CmdRun_def CmdClone_def
  by (subst call_steps.simps) (simp split: Method.splits)

lemma ServeHTTP_simps:
  "ServeHTTP docker env cmd args =
     (if cmd = [] then
        (case CmdUsage docker [''''] of
           (docker, out, Panic) \<Rightarrow> (docker, out, Panic)
         | (docker, out, Returned r) \<Rightarrow> (docker, out, Returned ()))
      else
        (case getMethod (unicode env) cmd of
           Panic \<Rightarrow> (docker, [], Panic)
         | Returned None \<Rightarrow>
             (case CmdUsage docker [cmd] of
                (docker, out, Panic) \<Rightarrow> (docker, out, Panic)
              | (docker, out, Returned r) \<Rightarrow> (docker, out, Returned ()))
         | Returned (Some method) \<Rightarrow>
             (case call method docker env args of
                (docker, out, Panic) \<Rightarrow> (docker, out, Panic)
              | (docker, out, Returned None) \<Rightarrow> (docker, out, Returned ())
              | (docker, out, Returned (Some err)) \<Rightarrow>
                  (docker, out @ [ErrorLine err], Returned ()))))"
  by (simp add: ServeHTTP_def ServeHTTP_steps_def call_def
      split: outcome.splits option.splits prod.splits)

section \<open>The registry: addLayer\<close>

lemma upt16: "[0..<16] = [0, 1, 2, 3, 4, 5, 6, 7, 8, 9, 10, 11, 12, 13, 14, 15]"
  by (simp add: upt_rec)

lemma ComputeId_1: "ComputeId 1 = ''0000000000000001''"
  by (simp add: ComputeId_def hexdigit_def upt16)

lemma Int31n_bound: "0 < n \<Longrightarrow> Int31n v n < n"
  by (simp add: Int31n_def)

lemma unat_estimate:
  "unat (of_nat (Int31n v (142 * 1024 * 1024)) :: 64 word) = Int31n v (142 * 1024 * 1024)"
proof -
  have "Int31n v (142 * 1024 * 1024) < 142 * 1024 * 1024"
    by (rule Int31n_bound) simp
  then have "Int31n v (142 * 1024 * 1024) < 2 ^ LENGTH(64)"
    by simp
  then show ?thesis
    by (simp only: unat_of_nat mod_less)
qed

text \<open>
  C10, as stated, fails: with no size given, the stored size is the draw reduced modulo
  \<open>142 * 1024 * 1024\<close>, and the draw 0 gives the size 0, which is not positive.
\<close>

theorem C10_addLayer_counterexample:
  "\<not> 0 < Size (snd (addLayer New (sample_env 1) ''base'' ''download'' 0))"
  by (simp add: addLayer_def sample_env_def Int31n_def Let_def)

text \<open>
  C10, amended. For every call of \<open>addLayer\<close>: if the size is zero, the stored size
  is the one drawn from the generator, at least 0 and below \<open>142 * 1024 * 1024\<close>; if
  it is not zero, the stored size is the given one; the layer returned has the given
  name and source and the identifier generated for this call, and the layer map after
  the call is the one before with the returned layer stored under that identifier.
\<close>

theorem C10_addLayer_stores:
  "(sz = 0 \<longrightarrow>
      Size (snd (addLayer docker env name source sz))
        = of_nat (Int31n (int31_1 env) (142 * 1024 * 1024)) \<and>
      unat (Size (snd (addLayer docker env name source sz))) < 142 * 1024 * 1024) \<and>
   (sz \<noteq> 0 \<longrightarrow> Size (snd (addLayer docker env name source sz)) = sz) \<and>
   Name (snd (addLayer docker env name source sz)) = name \<and>
   Source (snd (addLayer docker env name source sz)) = source \<and>
   Layer.Id (snd (addLayer docker env name source sz)) = randomId env \<and>
   layers (fst (addLayer docker env name source sz)) (randomId env)
     = Some (snd (addLayer docker env name source sz)) \<and>
   fst (addLayer docker env name source sz)
     = docker\<lparr>layers := (layers docker)(randomId env \<mapsto> snd (addLayer docker env name source sz))\<rparr>"
proof -
  have "unat (of_nat (Int31n (int31_1 env) (142 * 1024 * 1024)) :: 64 word) < 142 * 1024 * 1024"
    unfolding unat_estimate by (rule Int31n_bound) simp
  then show ?thesis
    by (simp add: addLayer_def Let_def)
qed

theorem C10_witness:
  "Size (snd (addLayer New (sample_env 1) ''base'' ''download'' 0)) = 0 \<and>
   Size (snd (addLayer New (sample_env 1) ''base'' ''download'' 7)) = 7 \<and>
   Layer.Id (snd (addLayer New (sample_env 1) ''base'' ''download'' 7)) = ''0000000000000001''"
  using C10_addLayer_stores [of 0 New "sample_env 1" "''base''" "''download''"]
    C10_addLayer_stores [of 7 New "sample_env 1" "''base''" "''download''"]
  by (simp add: sample_env_def Int31n_def randomId_def ComputeId_1)

section \<open>Dispatch by name\<close>

lemma Map_Nil: "Map f [] = []"
  by (simp add: Map.simps)

lemma Map_ascii:
  "(of_char c :: nat) < 0x80 \<Longrightarrow> Map f (c # s) = EncodeRune (f (of_char c)) @ Map f s"
  by (subst Map.simps) (simp add: DecodeRuneInString_def)

lemmas dispatch_eval = getMethod_def MethodByName_def ToUpper_def ToLower_def Map_ascii Map_Nil
  unicode_ToUpper_def unicode_ToLower_def EncodeRune_def char_of_eq_iff

lemma getMethod_normalize:
  "name \<noteq> [] \<Longrightarrow>
     getMethod u name = Returned (MethodByName (''Cmd'' @ normalize_name u name))"
  by (cases name) (simp_all add: getMethod_def normalize_name_def)

text \<open>
  A name with a letter past ASCII: with the table entry of U+0130, whose lower case is
  \<open>i\<close>, the name \<open>l\<close>, U+0130, \<open>st\<close> resolves to \<open>CmdList\<close>.
\<close>

lemma getMethod_dotted_capital_I:
  "getMethod sample_unicode [CHR ''l'', CHR 0xC4, CHR 0xB0, CHR ''s'', CHR ''t'']
     = Returned (Some Method_CmdList)"
proof -
  have "Map (unicode_ToLower sample_unicode) [CHR 0xC4, CHR 0xB0, CHR ''s'', CHR ''t'']
      = ''ist''"
    by (subst Map.simps)
      (simp add: DecodeRuneInString_def Map_ascii Map_Nil unicode_ToLower_def
        sample_unicode_def EncodeRune_def char_of_eq_iff)
  then show ?thesis
    by (simp add: dispatch_eval)
qed

text \<open>
  C7. For a name that is not empty, whatever the case tables, \<open>getMethod\<close> looks up
  the normalised name (first character in upper case, the remainder in lower case);
  two such names with the same normalisation resolve to the same method; and \<open>Run\<close>,
  \<open>run\<close> and \<open>RUN\<close> all resolve to \<open>CmdRun\<close>.
\<close>

theorem C7_getMethod_normalizes:
  "(name \<noteq> [] \<longrightarrow>
      getMethod u name = Returned (MethodByName (''Cmd'' @ normalize_name u name))) \<and>
   (name \<noteq> [] \<and> name' \<noteq> [] \<and> normalize_name u name = normalize_name u name' \<longrightarrow>
      getMethod u name = getMethod u name') \<and>
   getMethod u ''Run'' = Returned (Some Method_CmdRun) \<and>
   getMethod u ''run'' = Returned (Some Method_CmdRun) \<and>
   getMethod u ''RUN'' = Returned (Some Method_CmdRun)"
proof -
  have "getMethod u ''Run'' = Returned (Some Method_CmdRun)"
    and "getMethod u ''run'' = Returned (Some Method_CmdRun)"
    and "getMethod u ''RUN'' = Returned (Some Method_CmdRun)"
    by (simp_all add: dispatch_eval)
  then show ?thesis
    by (simp add: getMethod_normalize)
qed

theorem C7_witness:
  "''cLoNe'' \<noteq> [] \<and> ''CLONE'' \<noteq> [] \<and>
   normalize_name sample_unicode ''cLoNe'' = normalize_name sample_unicode ''CLONE'' \<and>
   getMethod sample_unicode ''cLoNe'' = getMethod sample_unicode ''CLONE'' \<and>
   getMethod sample_unicode ''cLoNe'' = Returned (MethodByName ''CmdClone'')"
proof -
  have n: "normalize_name sample_unicode ''cLoNe'' = ''Clone''"
    "normalize_name sample_unicode ''CLONE'' = ''Clone''"
    by (simp_all add: normalize_name_def dispatch_eval)
  show ?thesis
    using n C7_getMethod_normalizes [of "''cLoNe''" sample_unicode "''CLONE''"] by auto
qed

text \<open>
  C8. A request whose command name is empty or resolves to no method: the handler
  writes the fixed command summary and nothing else (no error line), returns, and
  leaves the registry as it was.
\<close>

theorem C8_unrecognized_command:
  "cmd = [] \<or> getMethod (unicode env) cmd = Returned None \<Longrightarrow>
     ServeHTTP docker env cmd args = (docker, [Text command_summary], Returned ())"
  by (auto simp: ServeHTTP_simps CmdUsage_def)

theorem C8_witness:
  "getMethod (unicode (sample_env 1)) ''bogus'' = Returned None \<and>
   ServeHTTP New (sample_env 1) ''bogus'' [''x''] = (New, [Text command_summary], Returned ()) \<and>
   ServeHTTP New (sample_env 1) [] [] = (New, [Text command_summary], Returned ())"
proof -
  have g: "getMethod (unicode (sample_env 1)) ''bogus'' = Returned None"
    by (simp add: dispatch_eval)
  show ?thesis
    using g
      C8_unrecognized_command [where cmd = "''bogus''" and docker = New
        and env = "sample_env 1" and args = "[''x'']"]
      C8_unrecognized_command [where cmd = "[]" and docker = New
        and env = "sample_env 1" and args = "[]"]
    by simp
qed

section \<open>CmdRun: resolving the layers\<close>

declare Parse.simps [simp del]

lemma append_layers:
  "foldl (\<lambda>c layer. c\<lparr>Layers := Layers c @ [layer]\<rparr>) container ls
     = container\<lparr>Layers := Layers container @ ls\<rparr>"
  by (induction ls arbitrary: container) simp_all

lemma add_layers_Inr:
  "add_layers docker names container = Inr c' \<Longrightarrow>
     Container.Id c' = Container.Id container \<and> Cmd c' = Cmd container \<and>
     Args c' = Args container \<and> Running c' = Running container"
proof (induction names arbitrary: container)
  case Nil
  then show ?case by simp
next
  case (Cons name names)
  show ?case
  proof (cases "layers docker name")
    case (Some layer)
    with Cons.prems
    have "add_layers docker names (container\<lparr>Layers := Layers container @ [layer]\<rparr>) = Inr c'"
      by simp
    from Cons.IH [OF this] show ?thesis by simp
  next
    case None
    show ?thesis
    proof (cases "containers docker name")
      case (Some src)
      with None Cons.prems
      have "add_layers docker names (container\<lparr>Layers := Layers container @ Layers src\<rparr>) = Inr c'"
        by (simp add: append_layers)
      from Cons.IH [OF this] show ?thesis by simp
    next
      case None': None
      with None Cons.prems show ?thesis by simp
    qed
  qed
qed

lemma add_layers_unresolved:
  "List.find (\<lambda>name. layers docker name = None \<and> containers docker name = None) names = Some name
   \<Longrightarrow> add_layers docker names container
         = Inl (errors_New (''No such layer or container: '' @ name))"
  by (induction names arbitrary: container) (auto split: option.splits if_splits)

lemma find_unresolved:
  "n \<in> set names \<Longrightarrow> P n \<Longrightarrow> \<exists>name. List.find P names = Some name"
  by (cases "List.find P names") (auto simp: find_None_iff)

text \<open>
  C4, as stated, fails: \<^verbatim>\<open>run -l nosuch\<close> has a layer list with a reference that is
  neither a layer nor a container, and names no command. \<open>CmdRun\<close> checks for the
  command before it resolves the layers, and the error is "No command specified".
\<close>

theorem C4_run_counterexample:
  "Parse [''l'' \<mapsto> ValueFlag] [''-l'', ''nosuch''] = (None, [(''l'', ''nosuch'')], []) \<and>
   ArgList ''l'' [(''l'', ''nosuch'')] = [''nosuch''] \<and>
   layers New ''nosuch'' = None \<and> containers New ''nosuch'' = None \<and>
   CmdRun New (sample_env 1) [''-l'', ''nosuch'']
     = (New, [], Returned (Some (errors_New ''No command specified''))) \<and>
   snd (snd (CmdRun New (sample_env 1) [''-l'', ''nosuch'']))
     \<noteq> Returned (Some (errors_New ''No such layer or container: nosuch''))"
proof -
  have p: "Parse [''l'' \<mapsto> ValueFlag] [''-l'', ''nosuch''] = (None, [(''l'', ''nosuch'')], [])"
    by (simp add: Parse.simps parseOne_def split_value_def)
  show ?thesis
    by (simp add: p CmdRun_def CmdRun_steps_def ArgList_def ArgList_Set_def Subcmd_output_def New_def)
qed

text \<open>
  C4, amended. For every call of \<open>CmdRun\<close> whose arguments parse and whose layer list
  has a reference that is neither a layer id nor a container id: if a command is named,
  the call fails with "No such layer or container: " and the first such reference; if
  none is named, it fails with "No command specified"; in both cases nothing is
  written and the registry, the container map with it, is the one before the call.
\<close>

theorem C4_run_unresolved_reference:
  assumes "Parse [''l'' \<mapsto> ValueFlag] args = (None, sets, rest)"
    and "n \<in> set (ArgList ''l'' sets)"
    and "layers docker n = None" and "containers docker n = None"
  shows "\<exists>name. List.find (\<lambda>name. layers docker name = None \<and> containers docker name = None)
             (ArgList ''l'' sets) = Some name \<and>
           (rest \<noteq> [] \<longrightarrow> CmdRun docker env args
              = (docker, [], Returned (Some (errors_New (''No such layer or container: '' @ name))))) \<and>
           (rest = [] \<longrightarrow> CmdRun docker env args
              = (docker, [], Returned (Some (errors_New ''No command specified'')))) \<and>
           containers (fst (CmdRun docker env args)) = containers docker"
proof -
  from assms(2-4) obtain name where
    f: "List.find (\<lambda>name. layers docker name = None \<and> containers docker name = None)
          (ArgList ''l'' sets) = Some name"
    using find_unresolved [of n "ArgList ''l'' sets"
        "\<lambda>name. layers docker name = None \<and> containers docker name = None"]
    by auto
  from assms(2) have l: "\<not> length (ArgList ''l'' sets) < 1"
    by (cases "ArgList ''l'' sets") auto
  have "rest \<noteq> [] \<Longrightarrow> CmdRun docker env args
      = (docker, [], Returned (Some (errors_New (''No such layer or container: '' @ name))))"
    using assms(1) l
    by (simp add: CmdRun_def CmdRun_steps_def Subcmd_output_def Let_def add_layers_unresolved [OF f])
  moreover have "rest = [] \<Longrightarrow> CmdRun docker env args
      = (docker, [], Returned (Some (errors_New ''No command specified'')))"
    using assms(1) l
    by (simp add: CmdRun_def CmdRun_steps_def Subcmd_output_def Let_def)
  ultimately show ?thesis
    using f by (cases "rest = []") auto
qed

theorem C4_witness:
  "Parse [''l'' \<mapsto> ValueFlag] [''-l'', ''nosuch'', ''true'']
     = (None, [(''l'', ''nosuch'')], [''true'']) \<and>
   ''nosuch'' \<in> set (ArgList ''l'' [(''l'', ''nosuch'')]) \<and>
   layers New ''nosuch'' = None \<and> containers New ''nosuch'' = None \<and>
   CmdRun New (sample_env 1) [''-l'', ''nosuch'', ''true'']
     = (New, [], Returned (Some (errors_New ''No such layer or container: nosuch'')))"
proof -
  have p: "Parse [''l'' \<mapsto> ValueFlag] [''-l'', ''nosuch'', ''true'']
      = (None, [(''l'', ''nosuch'')], [''true''])"
    by (simp add: Parse.simps parseOne_def split_value_def)
  have m: "''nosuch'' \<in> set (ArgList ''l'' [(''l'', ''nosuch'')])"
    by (simp add: ArgList_def ArgList_Set_def)
  have l: "layers New ''nosuch'' = None" and c: "containers New ''nosuch'' = None"
    by (simp_all add: New_def)
  show ?thesis
    using p m l c C4_run_unresolved_reference [OF p m l c, of "sample_env 1"]
    by (auto simp: ArgList_def ArgList_Set_def New_def)
qed

section \<open>The sample registries\<close>

lemma ComputeId_c1: "ComputeId 0xc1 = ''00000000000000c1''"
  by (simp add: ComputeId_def hexdigit_def upt16)

lemma ComputeId_c2: "ComputeId 0xc2 = ''00000000000000c2''"
  by (simp add: ComputeId_def hexdigit_def upt16)

lemma getMethod_get: "getMethod u ''get'' = Returned (Some Method_CmdGet)"
  by (simp add: dispatch_eval)

lemma getMethod_run: "getMethod u ''run'' = Returned (Some Method_CmdRun)"
  by (simp add: dispatch_eval)

lemma registry_1_eq:
  "registry_1 = \<lparr>layers = [''0000000000000001'' \<mapsto> sample_layer], containers = Map.empty\<rparr>"
  by (simp add: registry_1_def ServeHTTP_simps getMethod_get call_simps CmdGet_def addLayer_def
      sample_env_def randomId_def ComputeId_1 Int31n_def New_def sample_layer_def Let_def)

lemma Parse_run_sample:
  "Parse [''l'' \<mapsto> ValueFlag] [''-l'', ''0000000000000001'', ''echo'', ''hi'']
     = (None, [(''l'', ''0000000000000001'')], [''echo'', ''hi''])"
  by (simp add: Parse.simps parseOne_def split_value_def)

lemma registry_2_eq:
  "registry_2 = \<lparr>layers = [''0000000000000001'' \<mapsto> sample_layer],
      containers = [''00000000000000c1'' \<mapsto> sample_container False]\<rparr>"
  by (simp add: registry_2_def registry_1_eq ServeHTTP_simps getMethod_run call_simps CmdRun_def CmdRun_steps_def
      Parse_run_sample ArgList_def ArgList_Set_def Arg_def Subcmd_output_def
      sample_env_def randomId_def ComputeId_c1 Int31n_def sample_container_def Let_def
      Run_frame_def Run_body_def startCommand_def quiet_os_def copy_out_func_def
      copy_in_func_def no_effects_def)

section \<open>Generated identifiers are not flags\<close>

lemma hexdigit_not_dash: "n < 16 \<Longrightarrow> hexdigit n \<noteq> CHR ''-''"
proof -
  assume "n < 16"
  then have "hexdigit n \<in> set ''0123456789abcdef''"
    unfolding hexdigit_def by (intro nth_mem) simp
  then show ?thesis by auto
qed

lemma ComputeId_no_flag: "take 1 (ComputeId w) \<noteq> ''-''"
  by (simp add: ComputeId_def upt16 hexdigit_not_dash)

lemma parseOne_positional:
  "take 1 s \<noteq> ''-'' \<Longrightarrow> parseOne formal (s # rest) = NoFlag (s # rest)"
  by (simp add: parseOne_def)

lemma Parse_positional:
  "take 1 s \<noteq> ''-'' \<Longrightarrow> Parse formal (s # rest) = (None, [], s # rest)"
  by (simp add: Parse.simps parseOne_positional)

lemma Parse_clone_args:
  "Parse [''l'' \<mapsto> ValueFlag] (''-l'' # k # ''--'' # cmd # cmd_args)
     = (None, [(''l'', k)], cmd # cmd_args)"
proof -
  have 1: "parseOne [''l'' \<mapsto> ValueFlag] (''-l'' # k # ''--'' # cmd # cmd_args)
      = Seen ''l'' k (''--'' # cmd # cmd_args)"
    by (simp add: parseOne_def split_value_def)
  have 2: "parseOne [''l'' \<mapsto> ValueFlag] (''--'' # cmd # cmd_args) = NoFlag (cmd # cmd_args)"
    by (simp add: parseOne_def)
  have "Parse [''l'' \<mapsto> ValueFlag] (''--'' # cmd # cmd_args) = (None, [], cmd # cmd_args)"
    by (subst Parse.simps) (simp add: 2)
  then show ?thesis
    by (subst Parse.simps) (simp add: 1)
qed

section \<open>What the commands leave in the container map\<close>

text \<open>
  An entry of the container map after a command was there before, or is the container
  \<^verbatim>\<open>CmdRun\<close> stored under the identifier generated for it, with the flag clear.
\<close>

lemma CmdRun_entries:
  assumes "containers (fst (CmdRun docker env args)) k = Some c"
  shows "containers docker k = Some c \<or>
         (k = randomId env \<and> Container.Id c = k \<and> \<not> Running c)"
proof -
  obtain err sets rest where p: "Parse [''l'' \<mapsto> ValueFlag] args = (err, sets, rest)"
    by (cases "Parse [''l'' \<mapsto> ValueFlag] args") auto
  show ?thesis
    using assms p
    by (auto simp: CmdRun_def CmdRun_steps_def Let_def split: if_splits sum.splits prod.splits
        dest!: add_layers_Inr)
qed

lemma CmdRun_entries':
  "CmdRun docker env args = (docker', out, r) \<Longrightarrow> containers docker' k = Some c \<Longrightarrow>
     containers docker k = Some c \<or> (k = randomId env \<and> Container.Id c = k \<and> \<not> Running c)"
  using CmdRun_entries [of docker env args k c] by simp

lemma CmdClone_entries:
  assumes "containers (fst (CmdClone docker env args)) k = Some c"
  shows "containers docker k = Some c \<or>
         (k = randomId env \<and> Container.Id c = k \<and> \<not> Running c)"
proof -
  obtain err sets rest where p: "Parse [''r'' \<mapsto> BoolFlag] args = (err, sets, rest)"
    by (cases "Parse [''r'' \<mapsto> BoolFlag] args") auto
  show ?thesis
    using assms p
    by (auto simp: CmdClone_simps Let_def split: if_splits option.splits prod.splits
        dest: CmdRun_entries')
qed

lemma addLayer_containers:
  "addLayer docker env name source sz = (docker', layer) \<Longrightarrow>
     containers docker' = containers docker"
  by (auto simp: addLayer_def Let_def)

lemma CmdLayers_registry: "fst (CmdLayers docker args) = docker"
  by (simp add: CmdLayers_def Let_def split: prod.splits)

lemma CmdGet_containers: "containers (fst (CmdGet docker env args)) = containers docker"
  by (auto simp: CmdGet_def Let_def split: prod.splits dest: addLayer_containers)

lemma CmdPut_containers: "containers (fst (CmdPut docker env args)) = containers docker"
  by (auto simp: CmdPut_def Let_def split: prod.splits dest: addLayer_containers)

lemma CmdExport_containers: "containers (fst (CmdExport docker env args)) = containers docker"
  by (auto simp: CmdExport_def Let_def split: prod.splits option.splits
      dest: addLayer_containers)

lemma CmdHelp_help:
  "CmdHelp docker env [''--help'']
     = (docker, [], Returned (Some (errors_New ''No such command: --help'')))"
  by (simp add: CmdHelp_simps dispatch_eval)

lemma call_entries_1:
  assumes "method \<noteq> Method_CmdHelp"
    and "containers (fst (call method docker env args)) k = Some c"
  shows "containers docker k = Some c \<or>
         (k = randomId env \<and> Container.Id c = k \<and> \<not> Running c)"
  using assms
  by (cases "method")
    (auto simp: call_simps CmdLayers_registry CmdGet_containers CmdPut_containers
      CmdExport_containers CmdList_def CmdUsage_def
      dest: CmdRun_entries CmdClone_entries)

lemma fst_drop_result:
  "fst (case x of (docker, out, Panic) \<Rightarrow> (docker, out, Panic)
        | (docker, out, Returned r) \<Rightarrow> (docker, out, Returned None)) = fst x"
  by (auto split: prod.splits outcome.splits)

lemma CmdHelp_entries:
  assumes "containers (fst (CmdHelp docker env args)) k = Some c"
  shows "containers docker k = Some c \<or>
         (k = randomId env \<and> Container.Id c = k \<and> \<not> Running c)"
proof (cases "args = []")
  case True
  with assms show ?thesis by (simp add: CmdHelp_simps)
next
  case False
  show ?thesis
  proof (cases "getMethod (unicode env) (args ! 0)")
    case Panic
    with False assms show ?thesis by (simp add: CmdHelp_simps)
  next
    case (Returned m)
    show ?thesis
    proof (cases m)
      case None
      with Returned False assms show ?thesis by (simp add: CmdHelp_simps)
    next
      case (Some meth)
      with Returned False assms
      have e: "containers (fst (call meth docker env [''--help''])) k = Some c"
        by (simp add: CmdHelp_simps fst_drop_result)
      show ?thesis
      proof (cases "meth = Method_CmdHelp")
        case True
        with e show ?thesis by (simp add: call_simps CmdHelp_help)
      next
        case False
        from call_entries_1 [OF this e] show ?thesis .
      qed
    qed
  qed
qed

lemma call_entries:
  assumes "containers (fst (call method docker env args)) k = Some c"
  shows "containers docker k = Some c \<or>
         (k = randomId env \<and> Container.Id c = k \<and> \<not> Running c)"
proof (cases "method = Method_CmdHelp")
  case True
  with assms CmdHelp_entries [of docker env args k c] show ?thesis
    by (simp add: call_simps)
next
  case False
  from call_entries_1 [OF this assms] show ?thesis .
qed

lemma fst_ServeHTTP:
  "fst (ServeHTTP docker env cmd args) = docker \<or>
   (\<exists>method. fst (ServeHTTP docker env cmd args) = fst (call method docker env args))"
  by (auto simp: ServeHTTP_simps CmdUsage_def split: outcome.splits option.splits prod.splits)
    (metis fst_conv)+

lemma ServeHTTP_entries:
  assumes "containers (fst (ServeHTTP docker env cmd args)) k = Some c"
  shows "containers docker k = Some c \<or>
         (k = randomId env \<and> Container.Id c = k \<and> \<not> Running c)"
  using assms fst_ServeHTTP [of docker env cmd args] call_entries [of _ docker env args k c]
  by auto

lemma reachable_entries:
  "reachable docker \<Longrightarrow> containers docker k = Some c \<Longrightarrow>
     Container.Id c = k \<and> \<not> Running c \<and> (\<exists>w. k = ComputeId w)"
proof (induction arbitrary: k c rule: reachable.induct)
  case reachable_New
  then show ?case by (simp add: New_def)
next
  case (reachable_ServeHTTP docker env cmd args)
  from ServeHTTP_entries [OF reachable_ServeHTTP.prems]
  show ?case
  proof
    assume "containers docker k = Some c"
    then show ?thesis by (rule reachable_ServeHTTP.IH)
  next
    assume "k = randomId env \<and> Container.Id c = k \<and> \<not> Running c"
    then show ?thesis by (auto simp: randomId_def)
  qed
qed

text \<open>
  The moments of \<^verbatim>\<open>CmdRun\<close>: none, or three with the same registry, the one
  \<^verbatim>\<open>CmdRun\<close> leaves; the local variable has the flag set at the second and clear
  at the others, and the registry holds, under the identifier of the container, the
  container with the flag clear.
\<close>

lemma CmdRun_steps_moments:
  "fst (CmdRun_steps docker env args) = [] \<or>
   (\<exists>c. fst (CmdRun_steps docker env args)
           = [(fst (CmdRun docker env args), c),
              (fst (CmdRun docker env args), c\<lparr>Running := True\<rparr>),
              (fst (CmdRun docker env args), c)] \<and>
        \<not> Running c \<and>
        fst (CmdRun docker env args)
          = docker\<lparr>containers := (containers docker)(Container.Id c \<mapsto> c)\<rparr>)"
proof -
  obtain err sets rest where p: "Parse [''l'' \<mapsto> ValueFlag] args = (err, sets, rest)"
    by (cases "Parse [''l'' \<mapsto> ValueFlag] args") auto
  show ?thesis
    using p
    by (auto simp: CmdRun_def CmdRun_steps_def Let_def Run_frame_idle run_deferred_def clear_idle
        split: if_splits sum.splits prod.splits dest!: add_layers_Inr)
qed

text \<open>
  Every moment of a request is a moment of a call of \<^verbatim>\<open>CmdRun\<close> on the registry the
  request started with: \<^verbatim>\<open>Run\<close> is called by \<^verbatim>\<open>CmdRun\<close> alone, and no command
  writes to the registry before it calls \<^verbatim>\<open>CmdRun\<close>.
\<close>

lemma CmdClone_steps_moments:
  assumes "m \<in> set (fst (CmdClone_steps docker env args))"
  shows "\<exists>args'. m \<in> set (fst (CmdRun_steps docker env args'))"
proof -
  obtain err sets rest where p: "Parse [''r'' \<mapsto> BoolFlag] args = (err, sets, rest)"
    by (cases "Parse [''r'' \<mapsto> BoolFlag] args") auto
  show ?thesis
    using assms p
    by (auto simp: CmdClone_steps_def Let_def split: if_splits option.splits prod.splits)
      (metis fst_conv)+
qed

lemma CmdHelp_steps_help: "fst (CmdHelp_steps docker env [''--help'']) = []"
  by (subst CmdHelp_steps.simps) (simp add: dispatch_eval)

lemma call_steps_moments_1:
  assumes "method \<noteq> Method_CmdHelp"
    and "m \<in> set (fst (call_steps method docker env args))"
  shows "\<exists>args'. m \<in> set (fst (CmdRun_steps docker env args'))"
  using assms
  by (cases "method") (auto simp: call_steps.simps dest: CmdClone_steps_moments)

lemma fst_drop_result_steps:
  "fst (case x of (moments, docker, out, Panic) \<Rightarrow> (moments, docker, out, Panic)
        | (moments, docker, out, Returned r) \<Rightarrow> (moments, docker, out, Returned None)) = fst x"
  by (auto split: prod.splits outcome.splits)

lemma CmdHelp_steps_moments:
  assumes "m \<in> set (fst (CmdHelp_steps docker env args))"
  shows "\<exists>args'. m \<in> set (fst (CmdRun_steps docker env args'))"
proof (cases "args = []")
  case True
  with assms show ?thesis by (simp add: CmdHelp_steps.simps)
next
  case False
  show ?thesis
  proof (cases "getMethod (unicode env) (args ! 0)")
    case Panic
    with False assms show ?thesis by (simp add: CmdHelp_steps.simps)
  next
    case (Returned found)
    show ?thesis
    proof (cases found)
      case None
      with Returned False assms show ?thesis by (simp add: CmdHelp_steps.simps)
    next
      case (Some meth)
      with Returned False assms
      have e: "m \<in> set (fst (call_steps meth docker env [''--help'']))"
        by (simp add: CmdHelp_steps.simps fst_drop_result_steps)
      show ?thesis
      proof (cases "meth = Method_CmdHelp")
        case True
        with e show ?thesis by (simp add: call_steps.simps CmdHelp_steps_help)
      next
        case False
        from call_steps_moments_1 [OF this e] show ?thesis .
      qed
    qed
  qed
qed

lemma call_steps_moments:
  assumes "m \<in> set (fst (call_steps method docker env args))"
  shows "\<exists>args'. m \<in> set (fst (CmdRun_steps docker env args'))"
proof (cases "method = Method_CmdHelp")
  case True
  with assms CmdHelp_steps_moments [of m docker env args] show ?thesis
    by (simp add: call_steps.simps)
next
  case False
  from call_steps_moments_1 [OF this assms] show ?thesis .
qed

lemma ServeHTTP_steps_moments:
  assumes "m \<in> set (fst (ServeHTTP_steps docker env cmd args))"
  shows "\<exists>args'. m \<in> set (fst (CmdRun_steps docker env args'))"
proof -
  from assms obtain meth where "m \<in> set (fst (call_steps meth docker env args))"
    by (auto simp: ServeHTTP_steps_def CmdUsage_def
        split: if_splits outcome.splits option.splits prod.splits)
      (metis fst_conv)+
  then show ?thesis by (rule call_steps_moments)
qed

text \<open>
  C3. In every registry the service can reach, every container stored in the container
  map has \<open>Running\<close> clear, and so it is at every moment of every request made on
  such a registry, and of every call of \<^verbatim>\<open>CmdRun\<close>: while \<^verbatim>\<open>Run\<close>, the one function
  that sets the flag, is executed, the flag is set in the local variable of
  \<^verbatim>\<open>CmdRun\<close>, and the entry stored under the same identifier before the call is the
  container with the flag clear; the registry is the same at the three moments, and
  it is the one \<^verbatim>\<open>CmdRun\<close> leaves.
\<close>

theorem C3_stored_containers_idle:
  "reachable docker \<Longrightarrow>
     (\<forall>k c. containers docker k = Some c \<longrightarrow> \<not> Running c) \<and>
     (\<forall>env cmd args d local k c.
        (d, local) \<in> set (fst (ServeHTTP_steps docker env cmd args)) \<longrightarrow>
        containers d k = Some c \<longrightarrow> \<not> Running c) \<and>
     (\<forall>env args d local k c.
        (d, local) \<in> set (fst (CmdRun_steps docker env args)) \<longrightarrow>
        containers d k = Some c \<longrightarrow> \<not> Running c) \<and>
     (\<forall>env args.
        fst (CmdRun_steps docker env args) = [] \<or>
        (\<exists>d c. fst (CmdRun_steps docker env args)
                 = [(d, c), (d, c\<lparr>Running := True\<rparr>), (d, c)] \<and>
               containers d (Container.Id c) = Some c \<and> \<not> Running c \<and>
               d = fst (CmdRun docker env args)))"
proof (intro conjI allI impI)
  fix k c
  assume "reachable docker" and "containers docker k = Some c"
  then show "\<not> Running c"
    using reachable_entries by blast
next
  fix env cmd args d local k c
  assume r: "reachable docker"
    and "(d, local) \<in> set (fst (ServeHTTP_steps docker env cmd args))"
    and e: "containers d k = Some c"
  then obtain args' where m: "(d, local) \<in> set (fst (CmdRun_steps docker env args'))"
    using ServeHTTP_steps_moments by blast
  from m CmdRun_steps_moments [of docker env args']
  obtain c' where d: "d = docker\<lparr>containers := (containers docker)(Container.Id c' \<mapsto> c')\<rparr>"
    and c': "\<not> Running c'"
    by auto
  show "\<not> Running c"
  proof (cases "k = Container.Id c'")
    case True
    with e d c' show ?thesis by simp
  next
    case False
    with e d have "containers docker k = Some c" by simp
    with r show ?thesis
      using reachable_entries by blast
  qed
next
  fix env args d local k c
  assume r: "reachable docker"
    and m: "(d, local) \<in> set (fst (CmdRun_steps docker env args))"
    and e: "containers d k = Some c"
  from m CmdRun_steps_moments [of docker env args]
  obtain c' where d: "d = docker\<lparr>containers := (containers docker)(Container.Id c' \<mapsto> c')\<rparr>"
    and c': "\<not> Running c'"
    by auto
  show "\<not> Running c"
  proof (cases "k = Container.Id c'")
    case True
    with e d c' show ?thesis by simp
  next
    case False
    with e d have "containers docker k = Some c" by simp
    with r show ?thesis
      using reachable_entries by blast
  qed
next
  fix env args
  from CmdRun_steps_moments [of docker env args]
  show "fst (CmdRun_steps docker env args) = [] \<or>
        (\<exists>d c. fst (CmdRun_steps docker env args)
                 = [(d, c), (d, c\<lparr>Running := True\<rparr>), (d, c)] \<and>
               containers d (Container.Id c) = Some c \<and> \<not> Running c \<and>
               d = fst (CmdRun docker env args))"
  proof
    assume "fst (CmdRun_steps docker env args) = []"
    then show ?thesis by simp
  next
    assume "\<exists>c. fst (CmdRun_steps docker env args)
           = [(fst (CmdRun docker env args), c),
              (fst (CmdRun docker env args), c\<lparr>Running := True\<rparr>),
              (fst (CmdRun docker env args), c)] \<and>
        \<not> Running c \<and>
        fst (CmdRun docker env args)
          = docker\<lparr>containers := (containers docker)(Container.Id c \<mapsto> c)\<rparr>"
    then obtain c where
      1: "fst (CmdRun_steps docker env args)
           = [(fst (CmdRun docker env args), c),
              (fst (CmdRun docker env args), c\<lparr>Running := True\<rparr>),
              (fst (CmdRun docker env args), c)]"
      and 2: "\<not> Running c"
      and 3: "fst (CmdRun docker env args)
          = docker\<lparr>containers := (containers docker)(Container.Id c \<mapsto> c)\<rparr>"
      by blast
    from 3 have "containers (fst (CmdRun docker env args)) (Container.Id c) = Some c"
      by simp
    with 1 2 show ?thesis by blast
  qed
qed

lemma reachable_registry_1: "reachable registry_1"
  unfolding registry_1_def by (intro reachable_ServeHTTP reachable_New)

lemma reachable_registry_2: "reachable registry_2"
  unfolding registry_2_def registry_1_def
  by (intro reachable_ServeHTTP reachable_New)

lemma sample_request_moments:
  "fst (ServeHTTP_steps registry_1 (sample_env 0xc1) ''run''
          [''-l'', ''0000000000000001'', ''echo'', ''hi''])
     = fst (CmdRun_steps registry_1 (sample_env 0xc1)
          [''-l'', ''0000000000000001'', ''echo'', ''hi''])"
  by (simp add: ServeHTTP_steps_def getMethod_run call_steps.simps
      split: prod.splits outcome.splits option.splits)

lemma sample_run_moments:
  "fst (CmdRun_steps registry_1 (sample_env 0xc1) [''-l'', ''0000000000000001'', ''echo'', ''hi''])
     = [(registry_2, sample_container False), (registry_2, sample_container True),
        (registry_2, sample_container False)]"
  by (simp add: registry_2_eq registry_1_eq CmdRun_steps_def
      Parse_run_sample ArgList_def ArgList_Set_def Arg_def Subcmd_output_def
      sample_env_def randomId_def ComputeId_c1 Int31n_def sample_container_def Let_def
      Run_frame_def Run_body_def startCommand_def quiet_os_def copy_out_func_def
      copy_in_func_def no_effects_def run_deferred_def)

theorem C3_witness:
  "reachable registry_1 \<and>
   (registry_2, sample_container True)
     \<in> set (fst (ServeHTTP_steps registry_1 (sample_env 0xc1) ''run''
                   [''-l'', ''0000000000000001'', ''echo'', ''hi''])) \<and>
   Running (sample_container True) \<and>
   containers registry_2 ''00000000000000c1'' = Some (sample_container False) \<and>
   \<not> Running (sample_container False)"
proof -
  have m: "(registry_2, sample_container True)
     \<in> set (fst (ServeHTTP_steps registry_1 (sample_env 0xc1) ''run''
                   [''-l'', ''0000000000000001'', ''echo'', ''hi'']))"
    by (simp add: sample_request_moments sample_run_moments)
  have e: "containers registry_2 ''00000000000000c1'' = Some (sample_container False)"
    by (simp add: registry_2_eq)
  have "\<not> Running (sample_container False)"
    using C3_stored_containers_idle [OF reachable_registry_1] m e by blast
  moreover have "Running (sample_container True)"
    by (simp add: sample_container_def)
  ultimately show ?thesis
    using reachable_registry_1 m e by simp
qed

section \<open>CmdClone\<close>

lemma CmdRun_clone_args:
  assumes "layers docker k = None" and "containers docker k = Some src"
  shows "fst (CmdRun docker env (''-l'' # k # ''--'' # cmd # cmd_args))
    = docker\<lparr>containers := (containers docker)(randomId env \<mapsto>
        \<lparr>Container.Id = randomId env, Cmd = cmd, Args = cmd_args, Layers = Layers src,
         Created = now env, FilesChanged = of_nat (Int31n (int31_1 env) 42),
         BytesChanged = of_nat (Int31n (int31_2 env) (24 * 1024 * 1024)),
         Running = False\<rparr>)\<rparr>"
  using assms
  by (simp add: CmdRun_def CmdRun_steps_def Parse_clone_args ArgList_def ArgList_Set_def Arg_def Subcmd_output_def Let_def
      append_layers split: prod.splits)

text \<open>
  C5. For a container \<open>C\<close> registered under \<open>k\<close> in a registry the service can
  reach, \<open>k\<close> not being the identifier of a layer as well: \<^verbatim>\<open>clone k\<close> stores,
  under the identifier generated for it, a container whose layers are the layers of
  \<open>C\<close> in the same order, and whose command and arguments are those of \<open>C\<close>.
\<close>

theorem C5_clone_keeps_layers_and_command:
  assumes "reachable docker" and "containers docker k = Some C" and "layers docker k = None"
  shows "\<exists>C'. containers (fst (CmdClone docker env [k])) (randomId env) = Some C' \<and>
           Layers C' = Layers C \<and> Cmd C' = Cmd C \<and> Args C' = Args C"
proof -
  from reachable_entries [OF assms(1,2)]
  obtain w where id: "Container.Id C = k" and k: "k = ComputeId w"
    by auto
  have p: "Parse [''r'' \<mapsto> BoolFlag] [k] = (None, [], [k])"
    unfolding k by (rule Parse_positional) (rule ComputeId_no_flag)
  have "fst (CmdClone docker env [k])
      = fst (CmdRun docker env ([''-l'', k, ''--'', Cmd C] @ Args C))"
    using assms(2) id
    by (simp add: CmdClone_simps p Bool_def Arg_def Subcmd_output_def Let_def split: prod.splits)
  then show ?thesis
    by (simp add: CmdRun_clone_args [OF assms(3,2)])
qed

theorem C5_witness:
  "reachable registry_2 \<and>
   containers registry_2 ''00000000000000c1'' = Some (sample_container False) \<and>
   layers registry_2 ''00000000000000c1'' = None \<and>
   (\<exists>C'. containers (fst (CmdClone registry_2 (sample_env 0xc2) [''00000000000000c1'']))
            ''00000000000000c2'' = Some C' \<and>
          Layers C' = [sample_layer] \<and> Cmd C' = ''echo'' \<and> Args C' = [''hi''])"
proof -
  have c: "containers registry_2 ''00000000000000c1'' = Some (sample_container False)"
    and l: "layers registry_2 ''00000000000000c1'' = None"
    by (simp_all add: registry_2_eq)
  show ?thesis
    using reachable_registry_2 c l
      C5_clone_keeps_layers_and_command [OF reachable_registry_2 c l, of "sample_env 0xc2"]
    by (simp add: sample_container_def sample_env_def randomId_def ComputeId_c2)
qed

end
